theory Spec2Isabelle
  imports Complex_Main "HOL-Library.Word"
begin

section \<open>The platform's Date object\<close>

text \<open>
  The period calculator, the analyzer and the time service are written against the
  JavaScript \<^verbatim>\<open>Date\<close> object. Its behaviour is fixed by the ECMAScript language
  specification (section "Date Objects"); the definitions of this section follow the
  abstract operations of that section by name. A time value is a number of milliseconds
  since the epoch, or NaN for an invalid date. Every number that occurs here is an integer
  of magnitude below \<open>2^53\<close>, where the double arithmetic of the platform is exact, so
  numbers are modelled as \<open>int\<close>, and a number that may be NaN as \<open>int option\<close>.

  The local time zone is a parameter \<open>tz\<close>: the platform's \<open>LocalTZA\<close>, the offset of
  local time from UTC in milliseconds. The offset depends on the time it is asked for
  (daylight saving), so a zone is a function. \<open>tz t True\<close> is the offset in force at
  the instant \<open>t\<close>, which \<open>LocalTime\<close> adds; \<open>tz t False\<close> is the offset the platform
  uses for the local time \<open>t\<close>, which \<open>UTC\<close> subtracts. ECMAScript leaves both to
  the platform and asks of the second that a local time that a change of offset skips or
  repeats be read with the offset before the change.

  A Date holds a time value of magnitude at most 8640000000000000, or none: every
  constructor clips (\<open>TimeClip\<close>). The statements below that need it say so of the
  dates they take (\<open>min_time\<close>, \<open>max_time\<close>).
\<close>

datatype Date = Invalid_Date | Valid int

type_synonym num = "int option"

definition msPerDay :: int where "msPerDay = 86400000"
definition msPerHour :: int where "msPerHour = 3600000"
definition msPerMinute :: int where "msPerMinute = 60000"
definition msPerSecond :: int where "msPerSecond = 1000"

definition Day :: "int \<Rightarrow> int" where
  "Day t = t div msPerDay"

definition TimeWithinDay :: "int \<Rightarrow> int" where
  "TimeWithinDay t = t mod msPerDay"

definition DaysInYear :: "int \<Rightarrow> int" where
  "DaysInYear y =
     (if y mod 4 \<noteq> 0 then 365
      else if y mod 100 \<noteq> 0 then 366
      else if y mod 400 \<noteq> 0 then 365
      else 366)"

definition DayFromYear :: "int \<Rightarrow> int" where
  "DayFromYear y =
     365 * (y - 1970) + (y - 1969) div 4 - (y - 1901) div 100 + (y - 1601) div 400"

definition TimeFromYear :: "int \<Rightarrow> int" where
  "TimeFromYear y = msPerDay * DayFromYear y"

text \<open>
  ECMAScript defines \<open>YearFromTime t\<close> as the largest \<open>y\<close> with
  \<open>TimeFromYear y \<le> t\<close>. The definition below computes it: an estimate from the mean
  length of a year, corrected by at most one. Theorem \<open>YearFromTime_largest\<close> shows that
  it is the year of the specification.
\<close>

definition YearFromDay :: "int \<Rightarrow> int" where
  "YearFromDay n =
     (let y = 1970 + (n * 400) div 146097 in
      if n < DayFromYear y then y - 1
      else if DayFromYear (y + 1) \<le> n then y + 1
      else y)"

definition YearFromTime :: "int \<Rightarrow> int" where
  "YearFromTime t = YearFromDay (Day t)"

definition InLeapYear :: "int \<Rightarrow> int" where
  "InLeapYear t = (if DaysInYear (YearFromTime t) = 366 then 1 else 0)"

definition DayWithinYear :: "int \<Rightarrow> int" where
  "DayWithinYear t = Day t - DayFromYear (YearFromTime t)"

definition MonthFromTime :: "int \<Rightarrow> int" where
  "MonthFromTime t =
     (let d = DayWithinYear t; l = InLeapYear t in
      if d < 31 then 0
      else if d < 59 + l then 1
      else if d < 90 + l then 2
      else if d < 120 + l then 3
      else if d < 151 + l then 4
      else if d < 181 + l then 5
      else if d < 212 + l then 6
      else if d < 243 + l then 7
      else if d < 273 + l then 8
      else if d < 304 + l then 9
      else if d < 334 + l then 10
      else 11)"

definition DateFromTime :: "int \<Rightarrow> int" where
  "DateFromTime t =
     (let d = DayWithinYear t; l = InLeapYear t; m = MonthFromTime t in
      if m = 0 then d + 1
      else if m = 1 then d - 30
      else if m = 2 then d - 58 - l
      else if m = 3 then d - 89 - l
      else if m = 4 then d - 119 - l
      else if m = 5 then d - 150 - l
      else if m = 6 then d - 180 - l
      else if m = 7 then d - 211 - l
      else if m = 8 then d - 242 - l
      else if m = 9 then d - 272 - l
      else if m = 10 then d - 303 - l
      else d - 333 - l)"

definition WeekDay :: "int \<Rightarrow> int" where
  "WeekDay t = (Day t + 4) mod 7"

definition HourFromTime :: "int \<Rightarrow> int" where
  "HourFromTime t = (t div msPerHour) mod 24"

definition MinFromTime :: "int \<Rightarrow> int" where
  "MinFromTime t = (t div msPerMinute) mod 60"

definition SecFromTime :: "int \<Rightarrow> int" where
  "SecFromTime t = (t div msPerSecond) mod 60"

definition msFromTime :: "int \<Rightarrow> int" where
  "msFromTime t = t mod msPerSecond"

type_synonym zone = "int \<Rightarrow> bool \<Rightarrow> int"

definition LocalTime :: "zone \<Rightarrow> int \<Rightarrow> int" where
  "LocalTime tz t = t + tz t True"

definition UTC :: "zone \<Rightarrow> int \<Rightarrow> int" where
  "UTC tz t = t - tz t False"

text \<open>
  Zones for the worked instances: a zone that keeps one offset, and the zone of New
  York with the changes of offset of the year 2025. There the clocks go from 02:00 to
  03:00 on 9 March (at 07:00 UTC; from five to four hours behind UTC) and from 02:00 back
  to 01:00 on 2 November (at 06:00 UTC). The local hour that 9 March skips and the hour
  that 2 November repeats are read with the offset before the change.
\<close>

definition fixed_offset :: "int \<Rightarrow> zone" where
  "fixed_offset c = (\<lambda>t isUTC. c)"

definition new_york :: zone where
  "new_york =
     (\<lambda>t isUTC.
        if isUTC then (if 1741503600000 \<le> t \<and> t < 1762063200000 then - 14400000 else - 18000000)
        else (if 1741489200000 \<le> t \<and> t < 1762048800000 then - 14400000 else - 18000000))"

text \<open>
  The zone of Sao Paulo with the changes of offset of the summer 2018 to 2019: the clocks
  go from 00:00 to 01:00 on Sunday 4 November 2018 (at 03:00 UTC; from three to two hours
  behind UTC), so that Sunday has no local midnight, and from 00:00 back to 23:00 on 17
  February 2019 (at 02:00 UTC).
\<close>

definition sao_paulo :: zone where
  "sao_paulo =
     (\<lambda>t isUTC.
        if isUTC then (if 1541300400000 \<le> t \<and> t < 1550368800000 then - 7200000 else - 10800000)
        else (if 1541293200000 \<le> t \<and> t < 1550361600000 then - 7200000 else - 10800000))"

definition MakeTime :: "int \<Rightarrow> int \<Rightarrow> int \<Rightarrow> int \<Rightarrow> int" where
  "MakeTime h m s milli = h * msPerHour + m * msPerMinute + s * msPerSecond + milli"

text \<open>
  The day number of the first day of month \<open>mn\<close> (0 to 11) within a year, \<open>l\<close> being 1 in
  a leap year: the thresholds of \<open>MonthFromTime\<close>.
\<close>

definition MonthStart :: "int \<Rightarrow> int \<Rightarrow> int" where
  "MonthStart mn l =
     (if mn = 0 then 0
      else if mn = 1 then 31
      else if mn = 2 then 59 + l
      else if mn = 3 then 90 + l
      else if mn = 4 then 120 + l
      else if mn = 5 then 151 + l
      else if mn = 6 then 181 + l
      else if mn = 7 then 212 + l
      else if mn = 8 then 243 + l
      else if mn = 9 then 273 + l
      else if mn = 10 then 304 + l
      else 334 + l)"

text \<open>
  ECMAScript's \<open>MakeDay year month date\<close> finds the time value \<open>t\<close> of day 1 of month
  \<open>month mod 12\<close> of year \<open>year + floor (month / 12)\<close> and returns
  \<open>Day t + date - 1\<close>. Theorem \<open>MakeDay_finds\<close> shows that the day computed below is that
  day.
\<close>

definition MakeDay :: "int \<Rightarrow> int \<Rightarrow> int \<Rightarrow> int" where
  "MakeDay year month date =
     (let ym = year + month div 12; mn = month mod 12 in
      DayFromYear ym + MonthStart mn (if DaysInYear ym = 366 then 1 else 0) + date - 1)"

definition MakeDate :: "int \<Rightarrow> int \<Rightarrow> int" where
  "MakeDate day time = day * msPerDay + time"

definition MakeFullYear :: "int \<Rightarrow> int" where
  "MakeFullYear y = (if 0 \<le> y \<and> y \<le> 99 then 1900 + y else y)"

definition TimeClip :: "int \<Rightarrow> Date" where
  "TimeClip t = (if \<bar>t\<bar> > 8640000000000000 then Invalid_Date else Valid t)"

text \<open>\<^verbatim>\<open>new Date(value)\<close> for a number.\<close>

definition new_Date_value :: "num \<Rightarrow> Date" where
  "new_Date_value v = (case v of None \<Rightarrow> Invalid_Date | Some t \<Rightarrow> TimeClip t)"

text \<open>
  \<^verbatim>\<open>new Date(year, month, date, hours, minutes, seconds, ms)\<close>: the fields are read in
  local time, and a year from 0 to 99 stands for 1900 to 1999 (\<open>MakeFullYear\<close>).
\<close>

definition new_Date_fields :: "zone \<Rightarrow> num \<Rightarrow> num \<Rightarrow> num \<Rightarrow> num \<Rightarrow> num \<Rightarrow> num \<Rightarrow> num \<Rightarrow> Date" where
  "new_Date_fields tz year month date hours minutes seconds ms =
     (case (year, month, date, hours, minutes, seconds, ms) of
        (Some y, Some m, Some dt, Some h, Some mi, Some s, Some milli) \<Rightarrow>
          TimeClip (UTC tz (MakeDate (MakeDay (MakeFullYear y) m dt) (MakeTime h mi s milli)))
      | _ \<Rightarrow> Invalid_Date)"

text \<open>\<^verbatim>\<open>new Date(year, month, date)\<close>: the missing fields are 0.\<close>

definition new_Date_ymd :: "zone \<Rightarrow> num \<Rightarrow> num \<Rightarrow> num \<Rightarrow> Date" where
  "new_Date_ymd tz year month date =
     new_Date_fields tz year month date (Some 0) (Some 0) (Some 0) (Some 0)"

definition getTime :: "Date \<Rightarrow> num" where
  "getTime d = (case d of Invalid_Date \<Rightarrow> None | Valid t \<Rightarrow> Some t)"

definition getFullYear :: "zone \<Rightarrow> Date \<Rightarrow> num" where
  "getFullYear tz d = (case d of Invalid_Date \<Rightarrow> None | Valid t \<Rightarrow> Some (YearFromTime (LocalTime tz t)))"

definition getMonth :: "zone \<Rightarrow> Date \<Rightarrow> num" where
  "getMonth tz d = (case d of Invalid_Date \<Rightarrow> None | Valid t \<Rightarrow> Some (MonthFromTime (LocalTime tz t)))"

definition getDate :: "zone \<Rightarrow> Date \<Rightarrow> num" where
  "getDate tz d = (case d of Invalid_Date \<Rightarrow> None | Valid t \<Rightarrow> Some (DateFromTime (LocalTime tz t)))"

definition getDay :: "zone \<Rightarrow> Date \<Rightarrow> num" where
  "getDay tz d = (case d of Invalid_Date \<Rightarrow> None | Valid t \<Rightarrow> Some (WeekDay (LocalTime tz t)))"

definition getHours :: "zone \<Rightarrow> Date \<Rightarrow> num" where
  "getHours tz d = (case d of Invalid_Date \<Rightarrow> None | Valid t \<Rightarrow> Some (HourFromTime (LocalTime tz t)))"

definition getMinutes :: "zone \<Rightarrow> Date \<Rightarrow> num" where
  "getMinutes tz d = (case d of Invalid_Date \<Rightarrow> None | Valid t \<Rightarrow> Some (MinFromTime (LocalTime tz t)))"

definition getSeconds :: "zone \<Rightarrow> Date \<Rightarrow> num" where
  "getSeconds tz d = (case d of Invalid_Date \<Rightarrow> None | Valid t \<Rightarrow> Some (SecFromTime (LocalTime tz t)))"

definition getMilliseconds :: "zone \<Rightarrow> Date \<Rightarrow> num" where
  "getMilliseconds tz d = (case d of Invalid_Date \<Rightarrow> None | Valid t \<Rightarrow> Some (msFromTime (LocalTime tz t)))"

text \<open>\<^verbatim>\<open>d.setDate(date)\<close>, as the date it leaves in \<open>d\<close>.\<close>

definition setDate :: "zone \<Rightarrow> Date \<Rightarrow> num \<Rightarrow> Date" where
  "setDate tz d date =
     (case d of
        Invalid_Date \<Rightarrow> Invalid_Date
      | Valid t0 \<Rightarrow>
          (case date of
             None \<Rightarrow> Invalid_Date
           | Some dt \<Rightarrow>
               (let t = LocalTime tz t0 in
                TimeClip (UTC tz (MakeDate (MakeDay (YearFromTime t) (MonthFromTime t) dt)
                                           (TimeWithinDay t))))))"

text \<open>The operators \<^verbatim>\<open>+\<close> and \<^verbatim>\<open>-\<close> on numbers: NaN is absorbing.\<close>

definition num_add :: "num \<Rightarrow> num \<Rightarrow> num" where
  "num_add a b = (case (a, b) of (Some x, Some y) \<Rightarrow> Some (x + y) | _ \<Rightarrow> None)"

definition num_sub :: "num \<Rightarrow> num \<Rightarrow> num" where
  "num_sub a b = (case (a, b) of (Some x, Some y) \<Rightarrow> Some (x - y) | _ \<Rightarrow> None)"


section \<open>mywebCore: weekly and monthly report periods\<close>

record PeriodRange =
  range_start :: Date
  range_end :: Date

definition startOfDay :: "zone \<Rightarrow> Date \<Rightarrow> Date" where
  "startOfDay tz d =
     new_Date_fields tz (getFullYear tz d) (getMonth tz d) (getDate tz d)
       (Some 0) (Some 0) (Some 0) (Some 0)"

definition endOfDay :: "zone \<Rightarrow> Date \<Rightarrow> Date" where
  "endOfDay tz d =
     new_Date_fields tz (getFullYear tz d) (getMonth tz d) (getDate tz d)
       (Some 23) (Some 59) (Some 59) (Some 999)"

definition startOfWeekSunday :: "zone \<Rightarrow> Date \<Rightarrow> Date" where
  "startOfWeekSunday tz d =
     (let day = getDay tz d;
          s = startOfDay tz (new_Date_ymd tz (getFullYear tz d) (getMonth tz d) (getDate tz d))
      in setDate tz s (num_sub (getDate tz s) day))"

definition endOfWeekSaturday :: "zone \<Rightarrow> Date \<Rightarrow> Date" where
  "endOfWeekSaturday tz d =
     (let s = startOfWeekSunday tz d in
      new_Date_fields tz (getFullYear tz s) (getMonth tz s) (num_add (getDate tz s) (Some 6))
        (Some 23) (Some 59) (Some 59) (Some 999))"

definition startOfMonth :: "zone \<Rightarrow> Date \<Rightarrow> Date" where
  "startOfMonth tz d =
     new_Date_fields tz (getFullYear tz d) (getMonth tz d) (Some 1)
       (Some 0) (Some 0) (Some 0) (Some 0)"

definition endOfMonth :: "zone \<Rightarrow> Date \<Rightarrow> Date" where
  "endOfMonth tz d =
     new_Date_fields tz (getFullYear tz d) (num_add (getMonth tz d) (Some 1)) (Some 0)
       (Some 23) (Some 59) (Some 59) (Some 999)"

definition isWeeklyReportTrigger :: "zone \<Rightarrow> Date \<Rightarrow> bool" where
  "isWeeklyReportTrigger tz d \<longleftrightarrow>
     getDay tz d = Some 0 \<and> getHours tz d = Some 7 \<and> getMinutes tz d = Some 0"

definition isMonthlyReportTrigger :: "zone \<Rightarrow> Date \<Rightarrow> bool" where
  "isMonthlyReportTrigger tz d \<longleftrightarrow>
     getDate tz d = Some 1 \<and> getHours tz d = Some 7 \<and> getMinutes tz d = Some 0"

definition getCompletedWeeklyRangeFrom :: "zone \<Rightarrow> Date \<Rightarrow> PeriodRange" where
  "getCompletedWeeklyRangeFrom tz ref =
     (let thisWeekStart = startOfWeekSunday tz ref;
          lastWeekEnd = new_Date_value (num_sub (getTime thisWeekStart) (Some 1));
          lastWeekStart = startOfWeekSunday tz
            (new_Date_ymd tz (getFullYear tz lastWeekEnd) (getMonth tz lastWeekEnd)
               (getDate tz lastWeekEnd))
      in \<lparr>range_start = lastWeekStart, range_end = lastWeekEnd\<rparr>)"

definition getCurrentWeeklyRangeContaining :: "zone \<Rightarrow> Date \<Rightarrow> PeriodRange" where
  "getCurrentWeeklyRangeContaining tz ref =
     \<lparr>range_start = startOfWeekSunday tz ref, range_end = endOfWeekSaturday tz ref\<rparr>"

definition getCompletedMonthlyRangeFrom :: "zone \<Rightarrow> Date \<Rightarrow> PeriodRange" where
  "getCompletedMonthlyRangeFrom tz ref =
     (let thisMonthStart = startOfMonth tz ref;
          lastMonthEnd = new_Date_value (num_sub (getTime thisMonthStart) (Some 1));
          lastMonthStart = startOfMonth tz lastMonthEnd
      in \<lparr>range_start = lastMonthStart, range_end = lastMonthEnd\<rparr>)"

definition getCurrentMonthlyRangeContaining :: "zone \<Rightarrow> Date \<Rightarrow> PeriodRange" where
  "getCurrentMonthlyRangeContaining tz ref =
     \<lparr>range_start = startOfMonth tz ref, range_end = endOfMonth tz ref\<rparr>"

text \<open>
  Vocabulary for the statements about the period calculator. \<open>DaysInMonth\<close> is the
  length of a calendar month, with February's 29th day in a leap year. A year is
  \<open>plain_year\<close> when the Date constructor takes it as it is (outside 0 to 99).
  \<open>min_time\<close> and \<open>max_time\<close> bound the time values a Date can hold.
\<close>

definition month_len :: "int \<Rightarrow> int \<Rightarrow> int" where
  "month_len mn l =
     (if mn = 1 then 28 + l
      else if mn = 3 \<or> mn = 5 \<or> mn = 8 \<or> mn = 10 then 30
      else 31)"

definition DaysInMonth :: "int \<Rightarrow> int \<Rightarrow> int" where
  "DaysInMonth y mn = month_len mn (if DaysInYear y = 366 then 1 else 0)"

definition month_of :: "int \<Rightarrow> int \<Rightarrow> int" where
  "month_of d l =
     (if d < 31 then 0
      else if d < 59 + l then 1
      else if d < 90 + l then 2
      else if d < 120 + l then 3
      else if d < 151 + l then 4
      else if d < 181 + l then 5
      else if d < 212 + l then 6
      else if d < 243 + l then 7
      else if d < 273 + l then 8
      else if d < 304 + l then 9
      else if d < 334 + l then 10
      else 11)"

definition plain_year :: "int \<Rightarrow> bool" where
  "plain_year y \<longleftrightarrow> y < 0 \<or> 99 < y"

definition min_time :: int where "min_time = - 8640000000000000"
definition max_time :: int where "max_time = 8640000000000000"

text \<open>
  Local time values, for the instant \<open>t\<close>: 00:00:00.000 of its local day; the Sunday
  00:00:00.000 that starts its week; the first day 00:00:00.000 of its month; and the
  first day 00:00:00.000 of the month before (December of the year before for a \<open>t\<close> in
  January).
\<close>

definition day_start :: "zone \<Rightarrow> int \<Rightarrow> int" where
  "day_start tz t = Day (LocalTime tz t) * msPerDay"

definition week_start :: "zone \<Rightarrow> int \<Rightarrow> int" where
  "week_start tz t = (Day (LocalTime tz t) - WeekDay (LocalTime tz t)) * msPerDay"

definition month_start :: "zone \<Rightarrow> int \<Rightarrow> int" where
  "month_start tz t = (Day (LocalTime tz t) - DateFromTime (LocalTime tz t) + 1) * msPerDay"

definition prev_month_start :: "zone \<Rightarrow> int \<Rightarrow> int" where
  "prev_month_start tz t =
     (let y = YearFromTime (LocalTime tz t); m = MonthFromTime (LocalTime tz t) in
      MakeDay (if m = 0 then y - 1 else y) (if m = 0 then 11 else m - 1) 1 * msPerDay)"

text \<open>
  How the local clock of a zone passes a local time \<open>m\<close>. The platform assigns to \<open>m\<close>
  the instant \<open>UTC tz m\<close>. \<open>m\<close> is \<open>reached\<close> when the local clock shows \<open>m\<close> at that
  instant: this fails when a change of offset skips \<open>m\<close> (the clocks are set forward over
  it). The clock \<open>runs_into\<close> \<open>m\<close> when one millisecond before that instant it shows
  \<open>m - 1\<close>: this fails when a change of offset takes effect at that very instant. In a
  zone that keeps one offset every local time is reached and run into.
\<close>

definition reached :: "zone \<Rightarrow> int \<Rightarrow> bool" where
  "reached tz m \<longleftrightarrow> LocalTime tz (UTC tz m) = m"

definition runs_into :: "zone \<Rightarrow> int \<Rightarrow> bool" where
  "runs_into tz m \<longleftrightarrow> LocalTime tz (UTC tz m - 1) = m - 1"


section \<open>Strings and the ISO rendering of a date\<close>

text \<open>
  A JavaScript string is a sequence of 16-bit code units. \<open>ascii\<close> turns a literal of
  ASCII characters into one.
\<close>

type_synonym jsstring = "16 word list"

definition ascii :: "string \<Rightarrow> jsstring" where
  "ascii s = map of_char s"

definition digit :: "int \<Rightarrow> 16 word" where
  "digit k = of_int (48 + k)"

definition pad2 :: "int \<Rightarrow> jsstring" where
  "pad2 k = [digit (k div 10 mod 10), digit (k mod 10)]"

definition pad3 :: "int \<Rightarrow> jsstring" where
  "pad3 k = digit (k div 100 mod 10) # pad2 k"

definition pad4 :: "int \<Rightarrow> jsstring" where
  "pad4 k = digit (k div 1000 mod 10) # pad3 k"

definition pad6 :: "int \<Rightarrow> jsstring" where
  "pad6 k = digit (k div 100000 mod 10) # digit (k div 10000 mod 10) # pad4 k"

definition year_string :: "int \<Rightarrow> jsstring" where
  "year_string y =
     (if 0 \<le> y \<and> y \<le> 9999 then pad4 y
      else (if y < 0 then ascii ''-'' else ascii ''+'') @ pad6 \<bar>y\<bar>)"

definition iso_string :: "int \<Rightarrow> jsstring" where
  "iso_string t =
     year_string (YearFromTime t) @ ascii ''-'' @ pad2 (MonthFromTime t + 1) @ ascii ''-''
       @ pad2 (DateFromTime t) @ ascii ''T'' @ pad2 (HourFromTime t) @ ascii '':''
       @ pad2 (MinFromTime t) @ ascii '':'' @ pad2 (SecFromTime t) @ ascii ''.''
       @ pad3 (msFromTime t) @ ascii ''Z''"

datatype error = RangeError | TypeError

text \<open>\<^verbatim>\<open>d.toISOString()\<close> throws a RangeError on an invalid date.\<close>

definition toISOString :: "Date \<Rightarrow> error + jsstring" where
  "toISOString d = (case d of Invalid_Date \<Rightarrow> Inl RangeError | Valid t \<Rightarrow> Inr (iso_string t))"


section \<open>flowerCore: annotate and analyze\<close>

text \<open>
  Both functions read their optional time source once, by \<^verbatim>\<open>time?.now()\<close>. The model
  passes the outcome of that read: \<open>None\<close> when no time source is supplied, otherwise the
  Date that \<open>now()\<close> returned.
\<close>

datatype Strength = weak | medium | strong

record EmotionWithStrength =
  type :: jsstring
  strength :: "Strength option"

datatype Weather = sunny | cloudy | rainy | night

datatype TimeBand = Night | Morning | Afternoon | Evening

record ToneColor =
  h :: real
  s :: real
  l :: real

record Animation =
  sway :: real
  breathAmplitude :: real
  bloomSpeed :: real

record Shape =
  spread :: real

record FlowerParams =
  toneColor :: ToneColor
  shape :: Shape
  animation :: Animation

record Climate =
  weather :: Weather

record FlowerState =
  flower :: FlowerParams
  climate :: "Climate option"
  annotated_at :: "jsstring option"

record 'a Annotation =
  data :: 'a
  timeBand :: "TimeBand option"
  annotation_annotated_at :: "jsstring option"

text \<open>
  The five labels the analyzer looks for are string literals of the source, written in
  Japanese; they are given here by their code units. In the order joy, sadness, anger,
  anxiety, calm.
\<close>

definition joy_label :: jsstring where "joy_label = [0x559C, 0x3073]"
definition sadness_label :: jsstring where "sadness_label = [0x60B2, 0x3057, 0x307F]"
definition anger_label :: jsstring where "anger_label = [0x6012, 0x308A]"
definition anxiety_label :: jsstring where "anxiety_label = [0x4E0D, 0x5B89]"
definition calm_label :: jsstring where "calm_label = [0x5E73, 0x7A4F]"

definition annotate :: "zone \<Rightarrow> 'a \<Rightarrow> Date option \<Rightarrow> error + 'a Annotation" where
  "annotate tz input_data now =
     (let hr = (case now of None \<Rightarrow> None | Some d \<Rightarrow> Some (getHours tz d));
          timeBand =
            (case hr of
               None \<Rightarrow> None
             | Some None \<Rightarrow> Some Evening
             | Some (Some hr) \<Rightarrow>
                 Some (if hr < 5 then Night
                       else if hr < 11 then Morning
                       else if hr < 17 then Afternoon
                       else Evening))
      in case now of
           None \<Rightarrow> Inr \<lparr>data = input_data, timeBand = timeBand, annotation_annotated_at = None\<rparr>
         | Some d \<Rightarrow>
             (case toISOString d of
                Inl e \<Rightarrow> Inl e
              | Inr str \<Rightarrow>
                  Inr \<lparr>data = input_data, timeBand = timeBand,
                       annotation_annotated_at = Some str\<rparr>))"

text \<open>
  The numbers of \<open>analyze\<close> are decimal constants chosen by tests; the one sum, in
  \<open>spread\<close>, is taken in exact arithmetic.
\<close>

definition analyze :: "zone \<Rightarrow> EmotionWithStrength list \<Rightarrow> jsstring option \<Rightarrow> Date option
    \<Rightarrow> error + FlowerState" where
  "analyze tz emotions memo now =
     (let types = map type emotions;
          joy = (if joy_label \<in> set types then 1 else 0 :: int);
          sad = (if sadness_label \<in> set types then 1 else 0 :: int);
          anger = (if anger_label \<in> set types then 1 else 0 :: int);
          anxiety = (if anxiety_label \<in> set types then 1 else 0 :: int);
          peace = (if calm_label \<in> set types then 1 else 0 :: int);
          h = (if joy \<noteq> 0 then 50 else if sad \<noteq> 0 then 220 else if anger \<noteq> 0 then 0
               else if anxiety \<noteq> 0 then 200 else if peace \<noteq> 0 then 120 else 200);
          s = (if joy \<noteq> 0 \<or> anger \<noteq> 0 then 0.70 else if sad \<noteq> 0 then 0.45
               else if anxiety \<noteq> 0 then 0.55 else if peace \<noteq> 0 then 0.35 else 0.5);
          l = (if peace \<noteq> 0 then 0.70 else if joy \<noteq> 0 then 0.60 else if sad \<noteq> 0 then 0.45
               else if anger \<noteq> 0 then 0.45 else 0.55);
          spread = min 1 (real_of_int (joy + peace) * 0.6 + (if length types \<ge> 3 then 0.2 else 0));
          sway = (if anxiety \<noteq> 0 then 0.8 else if peace \<noteq> 0 then 0.2 else 0.5);
          breathAmplitude = (if joy \<noteq> 0 then 0.20 else if sad \<noteq> 0 then 0.10 else 0.15);
          bloomSpeed = (if joy \<noteq> 0 then 1.0 else if sad \<noteq> 0 then 0.6
                        else if anxiety \<noteq> 0 then 0.7 else if anger \<noteq> 0 then 0.8 else 0.9);
          hour = (case now of None \<Rightarrow> None | Some d \<Rightarrow> Some (getHours tz d));
          by_emotion = (if joy \<noteq> 0 then sunny else if sad \<noteq> 0 then rainy else cloudy);
          weather =
            (case hour of
               None \<Rightarrow> cloudy
             | Some None \<Rightarrow> by_emotion
             | Some (Some hour) \<Rightarrow> if hour < 5 \<or> hour \<ge> 22 then night else by_emotion);
          result = (\<lambda>stamp.
            \<lparr>flower =
               \<lparr>toneColor = \<lparr>h = h, s = s, l = l\<rparr>,
                shape = \<lparr>spread = spread\<rparr>,
                animation = \<lparr>sway = sway, breathAmplitude = breathAmplitude,
                             bloomSpeed = bloomSpeed\<rparr>\<rparr>,
             climate = Some \<lparr>weather = weather\<rparr>,
             annotated_at = stamp\<rparr>)
      in case now of
           None \<Rightarrow> Inr (result None)
         | Some d \<Rightarrow>
             (case toISOString d of Inl e \<Rightarrow> Inl e | Inr str \<Rightarrow> Inr (result (Some str))))"

text \<open>
  The reading of the specification's priority rule, to compare \<open>analyze\<close> with: the tone of
  a list is the tone of the first label present in the order joy, sadness, anger, anxiety,
  calm, a label's tone being what \<open>analyze\<close> gives for that label alone, and the tone of
  the empty list when no label is present.
\<close>

definition tone_alone :: "jsstring list \<Rightarrow> ToneColor option" where
  "tone_alone labels =
     (case analyze (fixed_offset 0) (map (\<lambda>t. \<lparr>type = t, strength = None\<rparr>) labels) None None of
        Inl e \<Rightarrow> None
      | Inr fs \<Rightarrow> Some (toneColor (flower fs)))"

definition priority_tone :: "EmotionWithStrength list \<Rightarrow> ToneColor option" where
  "priority_tone emotions =
     (let types = map type emotions in
      if joy_label \<in> set types then tone_alone [joy_label]
      else if sadness_label \<in> set types then tone_alone [sadness_label]
      else if anger_label \<in> set types then tone_alone [anger_label]
      else if anxiety_label \<in> set types then tone_alone [anxiety_label]
      else if calm_label \<in> set types then tone_alone [calm_label]
      else tone_alone [])"

text \<open>
  The first label of \<open>order\<close> that occurs in \<open>types\<close>, as a list of at most one label.
\<close>

definition first_present :: "jsstring list \<Rightarrow> jsstring list \<Rightarrow> jsstring list" where
  "first_present order types = take 1 (filter (\<lambda>x. x \<in> set types) order)"


section \<open>inputCore: building an entry\<close>

record BuildEntryPayload =
  emotions :: "jsstring list"
  memo :: "jsstring option"

record EmotionEntry =
  entry_emotions :: "jsstring list"
  entry_memo :: "jsstring option"
  created_at :: "jsstring option"

definition buildEntry :: "BuildEntryPayload \<Rightarrow> Date option \<Rightarrow> error + EmotionEntry" where
  "buildEntry payload now =
     (case now of
        None \<Rightarrow>
          Inr \<lparr>entry_emotions = emotions payload, entry_memo = memo payload, created_at = None\<rparr>
      | Some d \<Rightarrow>
          (case toISOString d of
             Inl e \<Rightarrow> Inl e
           | Inr str \<Rightarrow>
               Inr \<lparr>entry_emotions = emotions payload, entry_memo = memo payload,
                    created_at = Some str\<rparr>))"


section \<open>timeService: the time adapter\<close>

text \<open>
  Numbers of a configuration are doubles: a finite value, NaN or an infinity. A value that
  may be \<^verbatim>\<open>null\<close> is \<open>nullable\<close>.

  An optional property of an object is \<open>Absent\<close>, or present with the value
  \<^verbatim>\<open>undefined\<close>, or present with a value. Reading the property gives
  \<^verbatim>\<open>undefined\<close> in the first two cases alike; \<^verbatim>\<open>Object.keys\<close> and the object spread
  tell them apart, and \<^verbatim>\<open>JSON.stringify\<close> leaves out a property whose value is
  \<^verbatim>\<open>undefined\<close>.
\<close>

datatype jsnum = NaN | PosInf | NegInf | Fin real

datatype 'a nullable = Null | Val 'a

datatype 'a optional = Absent | Undefined | Defined 'a

datatype FreezeTo = FDate Date | FString jsstring | FNumber jsnum

datatype TimeMode = off | snapshot | interval

text \<open>
  The type \<^verbatim>\<open>TimeConfig\<close> requires \<^verbatim>\<open>mode\<close>, and a configuration that a caller
  writes has it. The registry can store the empty object as the entry of a feature (see
  \<open>mergeConfig\<close>), so the objects that reach \<open>createTimeAdapter\<close> include some without
  \<^verbatim>\<open>mode\<close>: the field is optional here. \<^verbatim>\<open>intervalMs\<close> is a number by its type; the
  JSON round trip of \<open>mergeConfig\<close> can leave \<^verbatim>\<open>null\<close> in its place.
\<close>

record TimeConfig =
  mode :: "TimeMode option"
  intervalMs :: "jsnum nullable optional"
  freezeTo :: "FreezeTo nullable optional"

definition empty_TimeConfig :: TimeConfig where
  "empty_TimeConfig = \<lparr>mode = None, intervalMs = Absent, freezeTo = Absent\<rparr>"

text \<open>
  \<^verbatim>\<open>new Date(n)\<close> for a number of a configuration, and \<^verbatim>\<open>new Date(s)\<close> for a
  string. \<^verbatim>\<open>Date.parse\<close> belongs to the platform and is a parameter: it gives the time
  value a string denotes, or NaN.
\<close>

definition new_Date_number :: "jsnum \<Rightarrow> Date" where
  "new_Date_number n =
     (case n of
        Fin x \<Rightarrow> if \<bar>x\<bar> > 8640000000000000 then Invalid_Date
                 else Valid (if 0 \<le> x then \<lfloor>x\<rfloor> else \<lceil>x\<rceil>)
      | _ \<Rightarrow> Invalid_Date)"

definition new_Date_string :: "(jsstring \<Rightarrow> num) \<Rightarrow> jsstring \<Rightarrow> Date" where
  "new_Date_string parse str = new_Date_value (parse str)"

text \<open>\<open>clock\<close> is the reading of the wall clock, which \<^verbatim>\<open>new Date()\<close> returns.\<close>

definition resolveNow :: "(jsstring \<Rightarrow> num) \<Rightarrow> int \<Rightarrow> FreezeTo nullable \<Rightarrow> Date" where
  "resolveNow parse clock fz =
     (case fz of
        Null \<Rightarrow> Valid clock
      | Val (FDate d) \<Rightarrow> new_Date_value (getTime d)
      | Val (FNumber n) \<Rightarrow> new_Date_number n
      | Val (FString str) \<Rightarrow> new_Date_string parse str)"

text \<open>
  An adapter is the object \<open>createTimeAdapter\<close> returns together with the variables its
  closures share: the configuration, the set of listeners (in insertion order) and the
  timer. \<open>subscribable\<close> tells whether the object has \<^verbatim>\<open>subscribe\<close> and
  \<^verbatim>\<open>__dispose\<close>. A callback is known by its identity; what a callback does, or whether
  it throws, does not reach the adapter, which discards the exception. The calls made to
  callbacks are recorded in a log.
\<close>

type_synonym callback = nat

type_synonym call_log = "(callback \<times> Date) list"

record TimeAdapter =
  cfg :: TimeConfig
  subscribable :: bool
  listeners :: "callback list"
  timer :: "jsnum option"

definition createTimeAdapter :: "TimeConfig \<Rightarrow> TimeAdapter" where
  "createTimeAdapter c =
     (if mode c = Some snapshot \<or> mode c = Some off
      then \<lparr>cfg = c, subscribable = False, listeners = [], timer = None\<rparr>
      else \<lparr>cfg = c, subscribable = True, listeners = [],
            timer = Some (case intervalMs c of Defined (Val n) \<Rightarrow> n | _ \<Rightarrow> Fin 60000)\<rparr>)"

definition now :: "(jsstring \<Rightarrow> num) \<Rightarrow> TimeAdapter \<Rightarrow> int \<Rightarrow> Date" where
  "now parse a clock =
     resolveNow parse clock (case freezeTo (cfg a) of Defined fz \<Rightarrow> fz | _ \<Rightarrow> Null)"

definition subscribe :: "(jsstring \<Rightarrow> num) \<Rightarrow> callback \<Rightarrow> int \<Rightarrow> TimeAdapter \<times> call_log
    \<Rightarrow> error + TimeAdapter \<times> call_log" where
  "subscribe parse cb clock w =
     (case w of (a, calls) \<Rightarrow>
        if \<not> subscribable a then Inl TypeError
        else Inr (a\<lparr>listeners := (if cb \<in> set (listeners a) then listeners a
                                     else listeners a @ [cb])\<rparr>,
                  calls @ [(cb, now parse a clock)]))"

text \<open>The function that \<open>subscribe\<close> returns: it deletes the callback from the set.\<close>

definition unsubscribe :: "callback \<Rightarrow> TimeAdapter \<Rightarrow> TimeAdapter" where
  "unsubscribe cb a = a\<lparr>listeners := removeAll cb (listeners a)\<rparr>"

text \<open>One firing of the timer. A stopped timer does not fire.\<close>

definition tick :: "(jsstring \<Rightarrow> num) \<Rightarrow> int \<Rightarrow> TimeAdapter \<times> call_log \<Rightarrow> TimeAdapter \<times> call_log" where
  "tick parse clock w =
     (case w of (a, calls) \<Rightarrow>
        (case timer a of
           None \<Rightarrow> (a, calls)
         | Some ms \<Rightarrow> (a, calls @ map (\<lambda>fn. (fn, now parse a clock)) (listeners a))))"

definition dispose :: "TimeAdapter \<Rightarrow> TimeAdapter" where
  "dispose a = a\<lparr>timer := None\<rparr>"

text \<open>
  The states an adapter created for the configuration \<open>c\<close> can reach by calls of its
  methods, of the functions \<open>subscribe\<close> returned, and of its disposer. (\<open>now\<close> and a
  firing of the timer leave the adapter as it is.)
\<close>

inductive adapter_state :: "TimeConfig \<Rightarrow> TimeAdapter \<Rightarrow> bool" for c :: TimeConfig where
  created: "adapter_state c (createTimeAdapter c)"
| subscribed:
    "adapter_state c a \<Longrightarrow> subscribe parse cb clock (a, calls) = Inr (a', calls')
       \<Longrightarrow> adapter_state c a'"
| unsubscribed: "adapter_state c a \<Longrightarrow> adapter_state c (unsubscribe cb a)"
| disposed: "adapter_state c a \<Longrightarrow> adapter_state c (dispose a)"


section \<open>MashOS: the configuration registry and the facade\<close>

datatype Feature = Input | Myweb | Flower

definition FEATURES :: "Feature list" where
  "FEATURES = [Input, Myweb, Flower]"

text \<open>
  \<^verbatim>\<open>MashOSConfig\<close> has the one field \<^verbatim>\<open>time\<close>; the record below is that field. A
  feature without an entry in \<open>perFeature\<close> maps to \<open>None\<close>.
\<close>

record MashOSConfig =
  default :: TimeConfig
  perFeature :: "Feature \<Rightarrow> TimeConfig option"

text \<open>
  The argument of \<open>configure\<close>. The code tests \<^verbatim>\<open>next.time\<close>,
  \<^verbatim>\<open>next.time.default\<close> and \<^verbatim>\<open>next.time.perFeature\<close> before it merges them, so
  each may be missing (\<open>None\<close>: absent or \<^verbatim>\<open>undefined\<close>, which the tests do not tell
  apart). The keys of \<^verbatim>\<open>perFeature\<close> are optional properties: the code visits the keys
  that are present, also those whose value is \<^verbatim>\<open>undefined\<close>.
\<close>

record TimePatch =
  next_default :: "TimeConfig option"
  next_perFeature :: "(Feature \<Rightarrow> TimeConfig optional) option"

type_synonym PartialConfig = "TimePatch option"

text \<open>
  The module state: the configuration, the adapter of each feature and its disposer, and
  the adapter objects created so far. An adapter is known by its position in \<open>heap\<close>; a
  disposer is the \<^verbatim>\<open>__dispose\<close> of the adapter it names.
\<close>

record MashOS =
  config :: MashOSConfig
  timeMap :: "Feature \<Rightarrow> nat option"
  disposers :: "Feature \<Rightarrow> nat option"
  heap :: "TimeAdapter list"

text \<open>
  \<^verbatim>\<open>JSON.parse(JSON.stringify(base))\<close>: a Date becomes its ISO string, or null when it is
  invalid; a number that is not finite becomes null; a property whose value is
  \<^verbatim>\<open>undefined\<close> is left out.
\<close>

definition json_num :: "jsnum nullable \<Rightarrow> jsnum nullable" where
  "json_num v = (case v of Val (Fin x) \<Rightarrow> Val (Fin x) | _ \<Rightarrow> Null)"

definition json_freeze :: "FreezeTo nullable \<Rightarrow> FreezeTo nullable" where
  "json_freeze v =
     (case v of
        Null \<Rightarrow> Null
      | Val (FDate Invalid_Date) \<Rightarrow> Null
      | Val (FDate (Valid t)) \<Rightarrow> Val (FString (iso_string t))
      | Val (FString str) \<Rightarrow> Val (FString str)
      | Val (FNumber (Fin x)) \<Rightarrow> Val (FNumber (Fin x))
      | Val (FNumber _) \<Rightarrow> Null)"

definition json_property :: "('a \<Rightarrow> 'a) \<Rightarrow> 'a optional \<Rightarrow> 'a optional" where
  "json_property f p = (case p of Defined v \<Rightarrow> Defined (f v) | _ \<Rightarrow> Absent)"

definition json_TimeConfig :: "TimeConfig \<Rightarrow> TimeConfig" where
  "json_TimeConfig c =
     \<lparr>mode = mode c, intervalMs = json_property json_num (intervalMs c),
      freezeTo = json_property json_freeze (freezeTo c)\<rparr>"

definition json_clone :: "MashOSConfig \<Rightarrow> MashOSConfig" where
  "json_clone c =
     \<lparr>default = json_TimeConfig (default c),
      perFeature = (\<lambda>f. map_option json_TimeConfig (perFeature c f))\<rparr>"

text \<open>
  The object spread \<^verbatim>\<open>{ ...prev, ...src }\<close> of two TimeConfigs: every property that is
  present in \<open>src\<close> overwrites, also one whose value is \<^verbatim>\<open>undefined\<close>.
\<close>

definition spread_TimeConfig :: "TimeConfig \<Rightarrow> TimeConfig \<Rightarrow> TimeConfig" where
  "spread_TimeConfig prev src =
     \<lparr>mode = (case mode src of None \<Rightarrow> mode prev | Some m \<Rightarrow> Some m),
      intervalMs = (case intervalMs src of Absent \<Rightarrow> intervalMs prev | v \<Rightarrow> v),
      freezeTo = (case freezeTo src of Absent \<Rightarrow> freezeTo prev | v \<Rightarrow> v)\<rparr>"

text \<open>
  For every key \<open>k\<close> present in the given \<^verbatim>\<open>perFeature\<close>, \<open>mergeConfig\<close> stores
  \<^verbatim>\<open>{ ...prev, ...src[k] }\<close>, where \<open>prev\<close> is the entry the feature had, or the empty
  object. Spreading \<^verbatim>\<open>undefined\<close> adds nothing: a key whose value is
  \<^verbatim>\<open>undefined\<close> stores \<open>prev\<close>.
\<close>

definition mergeConfig :: "MashOSConfig \<Rightarrow> PartialConfig \<Rightarrow> MashOSConfig" where
  "mergeConfig base next =
     (let out = json_clone base in
      case next of
        None \<Rightarrow> out
      | Some nt \<Rightarrow>
          \<lparr>default =
             (case next_default nt of
                None \<Rightarrow> default out
              | Some d \<Rightarrow> spread_TimeConfig (default out) d),
           perFeature =
             (case next_perFeature nt of
                None \<Rightarrow> perFeature out
              | Some src \<Rightarrow>
                  (\<lambda>k. let prev = (case perFeature out k of
                                       None \<Rightarrow> empty_TimeConfig
                                     | Some entry \<Rightarrow> entry)
                       in case src k of
                            Absent \<Rightarrow> perFeature out k
                          | Undefined \<Rightarrow> Some prev
                          | Defined c \<Rightarrow> Some (spread_TimeConfig prev c)))\<rparr>)"

definition resolveTimeConfig :: "MashOSConfig \<Rightarrow> Feature \<Rightarrow> TimeConfig" where
  "resolveTimeConfig c feature =
     (case perFeature c feature of Some tc \<Rightarrow> tc | None \<Rightarrow> default c)"

definition dispose_feature :: "Feature \<Rightarrow> MashOS \<Rightarrow> MashOS" where
  "dispose_feature f st =
     (case disposers st f of
        None \<Rightarrow> st
      | Some a \<Rightarrow>
          st\<lparr>heap := (heap st)[a := dispose (heap st ! a)],
             disposers := (disposers st)(f := None)\<rparr>)"

definition rebuild_feature :: "Feature \<Rightarrow> MashOS \<Rightarrow> MashOS" where
  "rebuild_feature f st =
     (let tc = resolveTimeConfig (config st) f in
      if mode tc = Some off then st\<lparr>timeMap := (timeMap st)(f := None)\<rparr>
      else
        (let adapter = createTimeAdapter tc; a = length (heap st) in
         st\<lparr>heap := heap st @ [adapter],
            disposers := (if subscribable adapter then (disposers st)(f := Some a)
                          else disposers st),
            timeMap := (timeMap st)(f := Some a)\<rparr>))"

definition rebuildTimeAdapters :: "MashOS \<Rightarrow> MashOS" where
  "rebuildTimeAdapters st = fold rebuild_feature FEATURES (fold dispose_feature FEATURES st)"

definition MashOS_init :: MashOS where
  "MashOS_init =
     rebuildTimeAdapters
       \<lparr>config = \<lparr>default = \<lparr>mode = Some snapshot, intervalMs = Absent, freezeTo = Absent\<rparr>,
                   perFeature = (\<lambda>f. None)\<rparr>,
        timeMap = (\<lambda>f. None), disposers = (\<lambda>f. None), heap = []\<rparr>"

definition configure :: "PartialConfig \<Rightarrow> MashOS \<Rightarrow> MashOS" where
  "configure next st = rebuildTimeAdapters (st\<lparr>config := mergeConfig (config st) next\<rparr>)"

text \<open>
  The states of the module: the state after its initialisation, and every state a call of
  \<open>configure\<close> leaves.
\<close>

inductive MashOS_state :: "MashOS \<Rightarrow> bool" where
  initial: "MashOS_state MashOS_init"
| configured: "MashOS_state st \<Longrightarrow> MashOS_state (configure next st)"




text \<open>The adapter a feature holds, and the read \<^verbatim>\<open>timeMap.f?.now()\<close>.\<close>

definition adapter_of :: "MashOS \<Rightarrow> Feature \<Rightarrow> TimeAdapter option" where
  "adapter_of st f =
     (case timeMap st f of
        None \<Rightarrow> None
      | Some a \<Rightarrow> if a < length (heap st) then Some (heap st ! a) else None)"

definition time_now :: "(jsstring \<Rightarrow> num) \<Rightarrow> MashOS \<Rightarrow> Feature \<Rightarrow> int \<Rightarrow> Date option" where
  "time_now parse st f clock = map_option (\<lambda>a. now parse a clock) (adapter_of st f)"

text \<open>The read \<^verbatim>\<open>timeMap.myweb?.now() ?? new Date()\<close>.\<close>

definition myweb_now :: "(jsstring \<Rightarrow> num) \<Rightarrow> MashOS \<Rightarrow> int \<Rightarrow> Date" where
  "myweb_now parse st clock =
     (case time_now parse st Myweb clock of None \<Rightarrow> Valid clock | Some d \<Rightarrow> d)"

definition input_buildEntry :: "(jsstring \<Rightarrow> num) \<Rightarrow> MashOS \<Rightarrow> int \<Rightarrow> BuildEntryPayload
    \<Rightarrow> error + EmotionEntry" where
  "input_buildEntry parse st clock payload = buildEntry payload (time_now parse st Input clock)"

definition myweb_isWeeklyReportNow :: "zone \<Rightarrow> (jsstring \<Rightarrow> num) \<Rightarrow> MashOS \<Rightarrow> int \<Rightarrow> bool" where
  "myweb_isWeeklyReportNow tz parse st clock = isWeeklyReportTrigger tz (myweb_now parse st clock)"

definition myweb_isMonthlyReportNow :: "zone \<Rightarrow> (jsstring \<Rightarrow> num) \<Rightarrow> MashOS \<Rightarrow> int \<Rightarrow> bool" where
  "myweb_isMonthlyReportNow tz parse st clock = isMonthlyReportTrigger tz (myweb_now parse st clock)"

definition myweb_completedWeeklyRangeForNow :: "zone \<Rightarrow> (jsstring \<Rightarrow> num) \<Rightarrow> MashOS \<Rightarrow> int
    \<Rightarrow> PeriodRange" where
  "myweb_completedWeeklyRangeForNow tz parse st clock =
     getCompletedWeeklyRangeFrom tz (myweb_now parse st clock)"

definition myweb_completedMonthlyRangeForNow :: "zone \<Rightarrow> (jsstring \<Rightarrow> num) \<Rightarrow> MashOS \<Rightarrow> int
    \<Rightarrow> PeriodRange" where
  "myweb_completedMonthlyRangeForNow tz parse st clock =
     getCompletedMonthlyRangeFrom tz (myweb_now parse st clock)"

definition myweb_currentWeeklyRange :: "zone \<Rightarrow> (jsstring \<Rightarrow> num) \<Rightarrow> MashOS \<Rightarrow> int
    \<Rightarrow> PeriodRange" where
  "myweb_currentWeeklyRange tz parse st clock =
     getCurrentWeeklyRangeContaining tz (myweb_now parse st clock)"

definition myweb_currentMonthlyRange :: "zone \<Rightarrow> (jsstring \<Rightarrow> num) \<Rightarrow> MashOS \<Rightarrow> int
    \<Rightarrow> PeriodRange" where
  "myweb_currentMonthlyRange tz parse st clock =
     getCurrentMonthlyRangeContaining tz (myweb_now parse st clock)"

definition flower_annotate :: "zone \<Rightarrow> (jsstring \<Rightarrow> num) \<Rightarrow> MashOS \<Rightarrow> int \<Rightarrow> 'a
    \<Rightarrow> error + 'a Annotation" where
  "flower_annotate tz parse st clock input_data =
     annotate tz input_data (time_now parse st Flower clock)"

definition flower_analyze :: "zone \<Rightarrow> (jsstring \<Rightarrow> num) \<Rightarrow> MashOS \<Rightarrow> int
    \<Rightarrow> EmotionWithStrength list \<Rightarrow> jsstring option \<Rightarrow> error + FlowerState" where
  "flower_analyze tz parse st clock es note =
     analyze tz es note (time_now parse st Flower clock)"


section \<open>The calendar of the Date object\<close>

subsection \<open>Years\<close>

lemma mod_shift4: "(y + 1 - 1969) mod 4 = y mod 4" for y :: int
proof -
  have "y + 1 - 1969 = y + (-492) * 4" by simp
  then show ?thesis by (metis mod_mult_self1 mult.commute)
qed

lemma mod_shift100: "(y + 1 - 1901) mod 100 = y mod 100" for y :: int
proof -
  have "y + 1 - 1901 = y + (-19) * 100" by simp
  then show ?thesis by (metis mod_mult_self1 mult.commute)
qed

lemma mod_shift400: "(y + 1 - 1601) mod 400 = y mod 400" for y :: int
proof -
  have "y + 1 - 1601 = y + (-4) * 400" by simp
  then show ?thesis by (metis mod_mult_self1 mult.commute)
qed

lemma div_succ:
  fixes k m :: int
  assumes m: "0 < m"
  shows "(k + 1) div m = k div m + (if (k + 1) mod m = 0 then 1 else 0)"
proof -
  define q where "q = k div m"
  define r where "r = k mod m"
  have k: "k = q * m + r" and r: "0 \<le> r" "r < m" using m by (simp_all add: q_def r_def)
  show ?thesis
  proof (cases "r + 1 = m")
    case True
    then have "k + 1 = (q + 1) * m" using k by (simp add: algebra_simps)
    then show ?thesis using m q_def by simp
  next
    case False
    then have lt: "r + 1 < m" using r by simp
    have e: "k + 1 = q * m + (r + 1)" using k by simp
    have "(k + 1) div m = q" unfolding e using lt r m by (simp add: div_pos_pos_trivial)
    moreover have "(k + 1) mod m = r + 1" unfolding e using lt r m by (simp add: mod_pos_pos_trivial)
    ultimately show ?thesis using r q_def by simp
  qed
qed

lemma mod_chain:
  fixes y :: int
  shows "y mod 400 = 0 \<Longrightarrow> y mod 100 = 0" and "y mod 100 = 0 \<Longrightarrow> y mod 4 = 0"
proof -
  have a: "(100::int) dvd 400" "(4::int) dvd 100" by simp_all
  show "y mod 400 = 0 \<Longrightarrow> y mod 100 = 0" using a(1) by (meson dvd_trans mod_eq_0_iff_dvd)
  show "y mod 100 = 0 \<Longrightarrow> y mod 4 = 0" using a(2) by (meson dvd_trans mod_eq_0_iff_dvd)
qed

lemma DayFromYear_Suc: "DayFromYear (y + 1) = DayFromYear y + DaysInYear y"
proof -
  have s4: "(y + 1 - 1969) div 4 = (y - 1969) div 4 + (if y mod 4 = 0 then 1 else 0)"
    using div_succ[of 4 "y - 1969"] mod_shift4[of y] by (simp add: algebra_simps)
  have s100: "(y + 1 - 1901) div 100 = (y - 1901) div 100 + (if y mod 100 = 0 then 1 else 0)"
    using div_succ[of 100 "y - 1901"] mod_shift100[of y] by (simp add: algebra_simps)
  have s400: "(y + 1 - 1601) div 400 = (y - 1601) div 400 + (if y mod 400 = 0 then 1 else 0)"
    using div_succ[of 400 "y - 1601"] mod_shift400[of y] by (simp add: algebra_simps)
  show ?thesis
    unfolding DayFromYear_def DaysInYear_def s4 s100 s400
    using mod_chain[of y] by (auto simp: algebra_simps)
qed

lemma DaysInYear_cases: "DaysInYear y = 365 \<or> DaysInYear y = 366"
  by (simp add: DaysInYear_def)

lemma DayFromYear_less_Suc: "DayFromYear y < DayFromYear (y + 1)"
  using DayFromYear_Suc[of y] DaysInYear_cases[of y] by linarith

lemma DayFromYear_mono_nat: "DayFromYear y \<le> DayFromYear (y + int k)"
proof (induction k)
  case 0
  then show ?case by simp
next
  case (Suc k)
  have "DayFromYear (y + int k) < DayFromYear (y + int k + 1)" by (rule DayFromYear_less_Suc)
  moreover have "y + int (Suc k) = y + int k + 1" by simp
  ultimately show ?case using Suc by (simp only:)
qed

lemma DayFromYear_mono: "y \<le> y' \<Longrightarrow> DayFromYear y \<le> DayFromYear y'"
  using DayFromYear_mono_nat[of y "nat (y' - y)"] by simp

lemma DayFromYear_strict_mono: "y < y' \<Longrightarrow> DayFromYear y < DayFromYear y'"
  using DayFromYear_mono[of "y + 1" y'] DayFromYear_less_Suc[of y] by linarith

lemma est_lo: "DayFromYear (1970 + (n * 400) div 146097 - 1) \<le> n"
proof -
  define q where "q = (n * 400) div 146097"
  define a where "a = q div 4"
  define b where "b = (q + 68) div 100"
  define c where "c = (q + 368) div 400"
  have q: "146097 * q \<le> 400 * n"
    unfolding q_def by linarith
  have a: "4 * a \<le> q" unfolding a_def by linarith
  have b: "q - 31 \<le> 100 * b" unfolding b_def by linarith
  have c: "400 * c \<le> q + 368" unfolding c_def by linarith
  have "DayFromYear (1970 + q - 1) = 365 * q - 365 + a - b + c"
    unfolding DayFromYear_def a_def b_def c_def by (simp add: algebra_simps)
  moreover have "146000 * q - 146000 + 400 * a - 400 * b + 400 * c \<le> 146097 * q - 145508"
    using a b c by linarith
  then have "365 * q - 365 + a - b + c \<le> n"
    using q by linarith
  ultimately show ?thesis unfolding q_def by simp
qed

lemma est_hi: "n < DayFromYear (1970 + (n * 400) div 146097 + 2)"
proof -
  define q where "q = (n * 400) div 146097"
  define a where "a = (q + 3) div 4"
  define b where "b = (q + 71) div 100"
  define c where "c = (q + 371) div 400"
  have q: "400 * n < 146097 * q + 146097"
    unfolding q_def by linarith
  have a: "q \<le> 4 * a" unfolding a_def by linarith
  have b: "100 * b \<le> q + 71" unfolding b_def by linarith
  have c: "q - 28 \<le> 400 * c" unfolding c_def by linarith
  have "DayFromYear (1970 + q + 2) = 365 * q + 730 + a - b + c"
    unfolding DayFromYear_def a_def b_def c_def by (simp add: algebra_simps)
  moreover have "146097 * q + 291688 \<le> 146000 * q + 292000 + 400 * a - 400 * b + 400 * c"
    using a b c by linarith
  then have "n < 365 * q + 730 + a - b + c"
    using q by linarith
  ultimately show ?thesis unfolding q_def by simp
qed

lemma YearFromDay_bounds:
  "DayFromYear (YearFromDay n) \<le> n \<and> n < DayFromYear (YearFromDay n + 1)"
proof -
  define y where "y = 1970 + (n * 400) div 146097"
  have lo: "DayFromYear (y - 1) \<le> n" using est_lo[of n] by (simp add: y_def)
  have hi: "n < DayFromYear (y + 1 + 1)" using est_hi[of n] by (simp add: y_def add.assoc)
  have Y: "YearFromDay n = (if n < DayFromYear y then y - 1
      else if DayFromYear (y + 1) \<le> n then y + 1 else y)"
    by (simp add: YearFromDay_def y_def Let_def)
  show ?thesis using lo hi unfolding Y by auto
qed

lemma YearFromDay_unique:
  assumes "DayFromYear y \<le> n" and "n < DayFromYear (y + 1)"
  shows "YearFromDay n = y"
proof (rule ccontr)
  let ?z = "YearFromDay n"
  assume ne: "?z \<noteq> y"
  have b: "DayFromYear ?z \<le> n" "n < DayFromYear (?z + 1)" using YearFromDay_bounds[of n] by simp_all
  show False
  proof (cases "?z < y")
    case True
    then have "DayFromYear (?z + 1) \<le> DayFromYear y" by (intro DayFromYear_mono) simp
    then show False using b assms by linarith
  next
    case False
    then have "y + 1 \<le> ?z" using ne by simp
    then have "DayFromYear (y + 1) \<le> DayFromYear ?z" by (rule DayFromYear_mono)
    then show False using b assms by linarith
  qed
qed

lemma YearFromDay_mono: "n \<le> n' \<Longrightarrow> YearFromDay n \<le> YearFromDay n'"
proof (rule ccontr)
  assume le: "n \<le> n'" and "\<not> YearFromDay n \<le> YearFromDay n'"
  then have "YearFromDay n' + 1 \<le> YearFromDay n" by simp
  then have "DayFromYear (YearFromDay n' + 1) \<le> DayFromYear (YearFromDay n)"
    by (rule DayFromYear_mono)
  then show False using YearFromDay_bounds[of n] YearFromDay_bounds[of n'] le by linarith
qed

lemma Day_bounds: "Day t * msPerDay \<le> t \<and> t < Day t * msPerDay + msPerDay"
  unfolding Day_def msPerDay_def by linarith

lemma Day_MakeDate: "0 \<le> time \<Longrightarrow> time < msPerDay \<Longrightarrow> Day (MakeDate d time) = d"
  unfolding Day_def MakeDate_def msPerDay_def by (simp add: div_pos_pos_trivial)

lemma TimeWithinDay_MakeDate:
  "0 \<le> time \<Longrightarrow> time < msPerDay \<Longrightarrow> TimeWithinDay (MakeDate d time) = time"
  unfolding TimeWithinDay_def MakeDate_def msPerDay_def by (simp add: mod_pos_pos_trivial)

theorem YearFromTime_largest:
  "TimeFromYear (YearFromTime t) \<le> t \<and> (\<forall>y. TimeFromYear y \<le> t \<longrightarrow> y \<le> YearFromTime t)"
proof
  have b: "DayFromYear (YearFromTime t) \<le> Day t" "Day t < DayFromYear (YearFromTime t + 1)"
    using YearFromDay_bounds[of "Day t"] by (simp_all add: YearFromTime_def)
  have "DayFromYear (YearFromTime t) * msPerDay \<le> Day t * msPerDay"
    using b(1) by (simp add: msPerDay_def)
  then have "msPerDay * DayFromYear (YearFromTime t) \<le> t"
    using Day_bounds[of t] by (simp only: mult.commute) linarith
  then show "TimeFromYear (YearFromTime t) \<le> t"
    by (simp add: TimeFromYear_def)
  show "\<forall>y. TimeFromYear y \<le> t \<longrightarrow> y \<le> YearFromTime t"
  proof (intro allI impI, rule ccontr)
    fix y assume le: "TimeFromYear y \<le> t" and "\<not> y \<le> YearFromTime t"
    then have "YearFromTime t + 1 \<le> y" by simp
    then have "DayFromYear (YearFromTime t + 1) \<le> DayFromYear y" by (rule DayFromYear_mono)
    then have "Day t + 1 \<le> DayFromYear y" using b(2) by linarith
    then have "(Day t + 1) * msPerDay \<le> DayFromYear y * msPerDay"
      by (simp add: msPerDay_def)
    then show False using le Day_bounds[of t]
      by (simp add: TimeFromYear_def algebra_simps)
  qed
qed

subsection \<open>Months and dates\<close>

lemma month_cases:
  fixes mn :: int
  assumes "0 \<le> mn" "mn \<le> 11"
  shows "mn = 0 \<or> mn = 1 \<or> mn = 2 \<or> mn = 3 \<or> mn = 4 \<or> mn = 5 \<or> mn = 6
      \<or> mn = 7 \<or> mn = 8 \<or> mn = 9 \<or> mn = 10 \<or> mn = 11"
  using assms by arith

lemma month_of_interval:
  fixes d lp :: int
  assumes m: "0 \<le> mn" "mn \<le> 11" and lp0: "0 \<le> lp"
    and lo: "MonthStart mn lp \<le> d" and hi: "d < MonthStart mn lp + month_len mn lp"
  shows "month_of d lp = mn"
proof -
  consider "mn = 0" | "mn = 1" | "mn = 2" | "mn = 3" | "mn = 4" | "mn = 5" | "mn = 6"
    | "mn = 7" | "mn = 8" | "mn = 9" | "mn = 10" | "mn = 11"
    using month_cases[OF m] by blast
  then show ?thesis
  proof cases
    case 1 then show ?thesis using lo hi lp0 by (simp add: MonthStart_def month_len_def month_of_def)
  next
    case 2 then show ?thesis using lo hi lp0 by (simp add: MonthStart_def month_len_def month_of_def)
  next
    case 3 then show ?thesis using lo hi lp0 by (simp add: MonthStart_def month_len_def month_of_def)
  next
    case 4 then show ?thesis using lo hi lp0 by (simp add: MonthStart_def month_len_def month_of_def)
  next
    case 5 then show ?thesis using lo hi lp0 by (simp add: MonthStart_def month_len_def month_of_def)
  next
    case 6 then show ?thesis using lo hi lp0 by (simp add: MonthStart_def month_len_def month_of_def)
  next
    case 7 then show ?thesis using lo hi lp0 by (simp add: MonthStart_def month_len_def month_of_def)
  next
    case 8 then show ?thesis using lo hi lp0 by (simp add: MonthStart_def month_len_def month_of_def)
  next
    case 9 then show ?thesis using lo hi lp0 by (simp add: MonthStart_def month_len_def month_of_def)
  next
    case 10 then show ?thesis using lo hi lp0 by (simp add: MonthStart_def month_len_def month_of_def)
  next
    case 11 then show ?thesis using lo hi lp0 by (simp add: MonthStart_def month_len_def month_of_def)
  next
    case 12 then show ?thesis using lo hi lp0 by (simp add: MonthStart_def month_len_def month_of_def)
  qed
qed

lemma month_of_range: "0 \<le> month_of d lp \<and> month_of d lp \<le> 11"
  by (simp add: month_of_def)

lemma month_of_bounds:
  fixes d lp :: int
  assumes d: "0 \<le> d" "d < 365 + lp"
  shows "MonthStart (month_of d lp) lp \<le> d \<and>
         d < MonthStart (month_of d lp) lp + month_len (month_of d lp) lp"
  using d by (simp add: month_of_def MonthStart_def month_len_def)

lemma MonthFromTime_month_of: "MonthFromTime t = month_of (DayWithinYear t) (InLeapYear t)"
  by (simp add: MonthFromTime_def month_of_def Let_def)

lemma DateFromTime_MonthStart:
  "DateFromTime t = DayWithinYear t - MonthStart (MonthFromTime t) (InLeapYear t) + 1"
proof -
  have "0 \<le> MonthFromTime t" "MonthFromTime t \<le> 11"
    using month_of_range by (simp_all add: MonthFromTime_month_of)
  from month_cases[OF this] show ?thesis
    unfolding DateFromTime_def Let_def
    by (elim disjE) (simp_all add: MonthStart_def)
qed

lemma DayWithinYear_range:
  "0 \<le> DayWithinYear t \<and> DayWithinYear t < DaysInYear (YearFromTime t)"
  using YearFromDay_bounds[of "Day t"] DayFromYear_Suc[of "YearFromTime t"]
  by (simp add: DayWithinYear_def YearFromTime_def)

lemma InLeapYear_eq: "InLeapYear t = DaysInYear (YearFromTime t) - 365"
  using DaysInYear_cases[of "YearFromTime t"] by (auto simp: InLeapYear_def)

lemma MonthFromTime_range: "0 \<le> MonthFromTime t \<and> MonthFromTime t \<le> 11"
  using month_of_range by (simp add: MonthFromTime_month_of)

lemma DateFromTime_range:
  "1 \<le> DateFromTime t \<and> DateFromTime t \<le> DaysInMonth (YearFromTime t) (MonthFromTime t)"
proof -
  have r: "0 \<le> DayWithinYear t" "DayWithinYear t < 365 + InLeapYear t"
    using DayWithinYear_range[of t] InLeapYear_eq[of t] by simp_all
  have "DaysInMonth (YearFromTime t) (MonthFromTime t) = month_len (MonthFromTime t) (InLeapYear t)"
    by (simp add: DaysInMonth_def InLeapYear_def)
  then show ?thesis
    using month_of_bounds[OF r] by (simp add: DateFromTime_MonthStart MonthFromTime_month_of)
qed

lemma MakeDay_month: "0 \<le> mn \<Longrightarrow> mn \<le> 11 \<Longrightarrow>
  MakeDay y mn dt = DayFromYear y + MonthStart mn (if DaysInYear y = 366 then 1 else 0) + dt - 1"
  by (simp add: MakeDay_def Let_def div_pos_pos_trivial mod_pos_pos_trivial)

lemma MakeDay_of_fields:
  "MakeDay (YearFromTime t) (MonthFromTime t) dt = Day t - DateFromTime t + dt"
proof -
  have "MakeDay (YearFromTime t) (MonthFromTime t) dt =
      DayFromYear (YearFromTime t) + MonthStart (MonthFromTime t) (InLeapYear t) + dt - 1"
    using MonthFromTime_range[of t] by (simp add: MakeDay_month InLeapYear_def)
  then show ?thesis
    by (simp add: DateFromTime_MonthStart DayWithinYear_def)
qed

lemma MonthStart_range:
  assumes "0 \<le> mn" "mn \<le> 11" "0 \<le> lp" "lp \<le> 1"
  shows "0 \<le> MonthStart mn lp \<and> MonthStart mn lp + month_len mn lp \<le> 365 + lp"
  using month_cases[OF assms(1,2)] assms(3,4)
  by (elim disjE) (simp_all add: MonthStart_def month_len_def)

lemma fields_of_day:
  assumes mn: "0 \<le> mn" "mn \<le> 11" and dt: "1 \<le> dt" "dt \<le> DaysInMonth y mn"
    and t: "Day t = MakeDay y mn dt"
  shows "YearFromTime t = y \<and> MonthFromTime t = mn \<and> DateFromTime t = dt"
proof -
  define lp :: int where "lp = (if DaysInYear y = 366 then 1 else 0)"
  define k where "k = MonthStart mn lp + dt - 1"
  have diy: "DaysInYear y = 365 + lp" using DaysInYear_cases[of y] by (auto simp: lp_def)
  have lp01: "0 \<le> lp" "lp \<le> 1" by (simp_all add: lp_def)
  have dim: "dt \<le> month_len mn lp" using dt(2) by (simp add: DaysInMonth_def lp_def)
  have k: "0 \<le> k" "k < 365 + lp"
    using MonthStart_range[OF mn lp01] dt(1) dim by (simp_all add: k_def)
  have D: "Day t = DayFromYear y + k"
    using t mn by (simp add: MakeDay_month k_def lp_def)
  have Y: "YearFromTime t = y"
    unfolding YearFromTime_def
    using k D DayFromYear_Suc[of y] diy by (intro YearFromDay_unique) simp_all
  have L: "InLeapYear t = lp" by (simp add: InLeapYear_def Y lp_def)
  have W: "DayWithinYear t = k" by (simp add: DayWithinYear_def Y D)
  have M: "MonthFromTime t = mn"
    unfolding MonthFromTime_month_of W L
    using dt(1) dim by (intro month_of_interval mn lp01) (simp_all add: k_def)
  have "DateFromTime t = dt"
    by (simp add: DateFromTime_MonthStart M W L k_def)
  with Y M show ?thesis by simp
qed

theorem MakeDay_finds:
  "YearFromTime (MakeDay y m 1 * msPerDay) = y + m div 12 \<and>
   MonthFromTime (MakeDay y m 1 * msPerDay) = m mod 12 \<and>
   DateFromTime (MakeDay y m 1 * msPerDay) = 1"
proof -
  have n: "MakeDay y m 1 = MakeDay (y + m div 12) (m mod 12) 1"
    by (simp add: MakeDay_def Let_def div_pos_pos_trivial mod_pos_pos_trivial)
  have d: "Day (MakeDay y m 1 * msPerDay) = MakeDay y m 1"
    by (simp add: Day_def msPerDay_def)
  have r: "0 \<le> m mod 12" "m mod 12 \<le> 11" by simp_all
  have "(1::int) \<le> DaysInMonth (y + m div 12) (m mod 12)"
    by (simp add: DaysInMonth_def month_len_def)
  then show ?thesis
    using fields_of_day[of "m mod 12" 1 "y + m div 12" "MakeDay y m 1 * msPerDay"] r d n
    by simp
qed


subsection \<open>Time within the day\<close>

lemma HourFromTime_MakeDate:
  assumes "0 \<le> time" "time < msPerDay"
  shows "HourFromTime (MakeDate d time) = time div msPerHour"
proof -
  have "MakeDate d time = time + (d * 24) * 3600000" by (simp add: MakeDate_def msPerDay_def)
  then have "MakeDate d time div 3600000 = time div 3600000 + d * 24"
    by (simp only: div_mult_self1)
  moreover have "0 \<le> time div 3600000" "time div 3600000 < 24"
    using assms unfolding msPerDay_def by linarith+
  ultimately show ?thesis
    by (simp add: HourFromTime_def msPerHour_def mod_pos_pos_trivial)
qed

lemma MinFromTime_MakeDate:
  "MinFromTime (MakeDate d time) = MinFromTime time"
proof -
  have "MakeDate d time = time + (d * 1440) * 60000" by (simp add: MakeDate_def msPerDay_def)
  then have "MakeDate d time div 60000 = time div 60000 + (d * 24) * 60"
    by (simp only: div_mult_self1)
  then have "(MakeDate d time div 60000) mod 60 = (time div 60000) mod 60"
    by (simp only: mod_mult_self1)
  then show ?thesis
    by (simp add: MinFromTime_def msPerMinute_def)
qed

lemma SecFromTime_MakeDate:
  "SecFromTime (MakeDate d time) = SecFromTime time"
proof -
  have "MakeDate d time = time + (d * 86400) * 1000" by (simp add: MakeDate_def msPerDay_def)
  then have "MakeDate d time div 1000 = time div 1000 + (d * 1440) * 60"
    by (simp only: div_mult_self1)
  then have "(MakeDate d time div 1000) mod 60 = (time div 1000) mod 60"
    by (simp only: mod_mult_self1)
  then show ?thesis
    by (simp add: SecFromTime_def msPerSecond_def)
qed

lemma msFromTime_MakeDate:
  "msFromTime (MakeDate d time) = msFromTime time"
proof -
  have "MakeDate d time = time + (d * 86400) * 1000" by (simp add: MakeDate_def msPerDay_def)
  then have "MakeDate d time mod 1000 = time mod 1000"
    by (simp only: mod_mult_self1)
  then show ?thesis
    by (simp add: msFromTime_def msPerSecond_def)
qed

lemma WeekDay_MakeDate:
  "0 \<le> time \<Longrightarrow> time < msPerDay \<Longrightarrow> WeekDay (MakeDate d time) = (d + 4) mod 7"
  by (simp add: WeekDay_def Day_MakeDate)

lemma MakeDate_Day: "MakeDate (Day t) (TimeWithinDay t) = t"
  by (simp add: MakeDate_def Day_def TimeWithinDay_def)

lemma TimeWithinDay_range: "0 \<le> TimeWithinDay t \<and> TimeWithinDay t < msPerDay"
  by (simp add: TimeWithinDay_def msPerDay_def)

lemma WeekDay_range: "0 \<le> WeekDay t \<and> WeekDay t \<le> 6"
  unfolding WeekDay_def by presburger

lemma HourFromTime_range: "0 \<le> HourFromTime t \<and> HourFromTime t \<le> 23"
  by (simp add: HourFromTime_def)

subsection \<open>The period calculator on valid dates\<close>

lemma TimeClip_Valid: "min_time \<le> t \<Longrightarrow> t \<le> max_time \<Longrightarrow> TimeClip t = Valid t"
  by (simp add: TimeClip_def min_time_def max_time_def)

lemma MakeFullYear_plain: "plain_year y \<Longrightarrow> MakeFullYear y = y"
  by (auto simp: plain_year_def MakeFullYear_def)

lemma new_Date_fields_of:
  assumes "plain_year (YearFromTime lt)"
  shows "new_Date_fields tz (Some (YearFromTime lt)) (Some (MonthFromTime lt)) (Some dt)
           (Some hh) (Some mi) (Some ss) (Some milli) =
         TimeClip (UTC tz ((Day lt - DateFromTime lt + dt) * msPerDay + MakeTime hh mi ss milli))"
  using assms
  by (simp add: new_Date_fields_def MakeFullYear_plain MakeDay_of_fields MakeDate_def)

lemma startOfDay_Valid:
  assumes "plain_year (YearFromTime (LocalTime tz t))"
  shows "startOfDay tz (Valid t) = TimeClip (UTC tz (day_start tz t))"
  using new_Date_fields_of[OF assms, of tz "DateFromTime (LocalTime tz t)" 0 0 0 0]
  by (simp add: startOfDay_def getFullYear_def getMonth_def getDate_def MakeTime_def day_start_def)

lemma Day_midnight: "Day (n * msPerDay) = n"
  by (simp add: Day_def msPerDay_def)

lemma fields_same_day:
  "Day t = Day t' \<Longrightarrow> YearFromTime t = YearFromTime t' \<and> MonthFromTime t = MonthFromTime t'
     \<and> DateFromTime t = DateFromTime t' \<and> WeekDay t = WeekDay t'"
  by (simp add: YearFromTime_def MonthFromTime_def DateFromTime_def WeekDay_def
      DayWithinYear_def InLeapYear_def)

lemma Day_lower: "t - msPerDay < Day t * msPerDay" and Day_upper: "Day t * msPerDay \<le> t"
  using Day_bounds[of t] by simp_all

lemma startOfWeekSunday_Valid:
  assumes py: "plain_year (YearFromTime (LocalTime tz t))"
    and ex: "reached tz (day_start tz t)"
    and r0: "min_time \<le> UTC tz (day_start tz t)" "UTC tz (day_start tz t) \<le> max_time"
    and r1: "min_time \<le> UTC tz (week_start tz t)" "UTC tz (week_start tz t) \<le> max_time"
  shows "startOfWeekSunday tz (Valid t) = Valid (UTC tz (week_start tz t))"
proof -
  define lt where "lt = LocalTime tz t"
  define D where "D = Day lt"
  define w where "w = WeekDay lt"
  define u where "u = UTC tz (D * msPerDay)"
  have ds: "day_start tz t = D * msPerDay" by (simp add: day_start_def D_def lt_def)
  have ws: "week_start tz t = (D - w) * msPerDay" by (simp add: week_start_def D_def w_def lt_def)
  have inner: "new_Date_ymd tz (getFullYear tz (Valid t)) (getMonth tz (Valid t)) (getDate tz (Valid t))
      = Valid u"
    using new_Date_fields_of[of lt tz "DateFromTime lt" 0 0 0 0] py TimeClip_Valid[OF r0]
    by (simp add: new_Date_ymd_def getFullYear_def getMonth_def getDate_def MakeTime_def
        lt_def D_def u_def ds)
  have loc: "LocalTime tz u = D * msPerDay" using ex by (simp add: reached_def ds u_def)
  have same: "Day (D * msPerDay) = Day lt" by (simp add: Day_midnight D_def)
  note f = fields_same_day[OF same]
  have dsu: "day_start tz u = D * msPerDay" by (simp add: day_start_def loc Day_midnight)
  have py_u: "plain_year (YearFromTime (LocalTime tz u))" using py f by (simp add: loc lt_def)
  have tc: "TimeClip u = Valid u" using TimeClip_Valid[OF r0] by (simp add: u_def ds)
  have sod: "startOfDay tz (Valid u) = Valid u"
    using startOfDay_Valid[OF py_u] tc by (simp add: dsu flip: u_def)
  have tw: "TimeWithinDay (D * msPerDay) = 0" by (simp add: TimeWithinDay_def msPerDay_def)
  have md: "MakeDay (YearFromTime (D * msPerDay)) (MonthFromTime (D * msPerDay))
      (DateFromTime (D * msPerDay) - w) = D - w"
    by (simp add: MakeDay_of_fields Day_midnight)
  have gd: "getDay tz (Valid t) = Some w" by (simp add: getDay_def w_def lt_def)
  have sd: "setDate tz (Valid u) (num_sub (getDate tz (Valid u)) (getDay tz (Valid t)))
        = Valid (UTC tz ((D - w) * msPerDay))"
    using TimeClip_Valid[OF r1]
    by (simp add: gd setDate_def num_sub_def getDate_def loc Let_def md tw MakeDate_def ws)
  have "startOfWeekSunday tz (Valid t) = Valid (UTC tz ((D - w) * msPerDay))"
    by (simp add: startOfWeekSunday_def Let_def inner sod sd)
  then show ?thesis by (simp add: ws)
qed

lemma sunday_arith: "(D - (D + 4) mod 7 + 4) mod 7 = 0" for D :: int
  by presburger

lemma saturday_arith: "(D - (D + 4) mod 7 - 1 + 4) mod 7 = 6" for D :: int
  by presburger

lemma Day_before_midnight: "Day (n * msPerDay - 1) = n - 1"
proof -
  have "n * msPerDay - 1 = MakeDate (n - 1) (msPerDay - 1)"
    by (simp add: MakeDate_def algebra_simps)
  then show ?thesis using Day_MakeDate[of "msPerDay - 1" "n - 1"] by (simp add: msPerDay_def)
qed

lemma completed_weekly_range:
  fixes tz :: zone and t :: int
  defines "ws \<equiv> week_start tz t"
  assumes py: "plain_year (YearFromTime (LocalTime tz t))"
    and py2: "plain_year (YearFromTime (ws - 1))"
    and ex0: "reached tz (day_start tz t)"
    and cont: "runs_into tz ws"
    and ex6: "reached tz (ws - msPerDay)"
    and r0: "min_time \<le> UTC tz (day_start tz t)" "UTC tz (day_start tz t) \<le> max_time"
    and r1: "min_time \<le> UTC tz ws - 1" "UTC tz ws \<le> max_time"
    and r6: "min_time \<le> UTC tz (ws - msPerDay)" "UTC tz (ws - msPerDay) \<le> max_time"
    and r7: "min_time \<le> UTC tz (ws - 7 * msPerDay)" "UTC tz (ws - 7 * msPerDay) \<le> max_time"
  shows "startOfWeekSunday tz (Valid t) = Valid (UTC tz ws)"
    and "range_end (getCompletedWeeklyRangeFrom tz (Valid t)) = Valid (UTC tz ws - 1)"
    and "range_start (getCompletedWeeklyRangeFrom tz (Valid t)) = Valid (UTC tz (ws - 7 * msPerDay))"
proof -
  define lt where "lt = LocalTime tz t"
  define D where "D = Day lt"
  define w where "w = WeekDay lt"
  have ws: "ws = (D - w) * msPerDay" by (simp add: ws_def week_start_def D_def w_def lt_def)
  have w: "w = (D + 4) mod 7" by (simp add: w_def WeekDay_def D_def)
  have lo1: "min_time \<le> UTC tz ws" using r1(1) by simp
  show 1: "startOfWeekSunday tz (Valid t) = Valid (UTC tz ws)"
    using startOfWeekSunday_Valid[OF py ex0 r0] lo1 r1(2) by (simp add: ws_def)
  have up1: "UTC tz ws - 1 \<le> max_time" using r1(2) by simp
  have lwe: "new_Date_value (num_sub (getTime (Valid (UTC tz ws))) (Some 1)) = Valid (UTC tz ws - 1)"
    using TimeClip_Valid[OF r1(1) up1] by (simp add: new_Date_value_def num_sub_def getTime_def)
  have loc: "LocalTime tz (UTC tz ws - 1) = ws - 1" using cont by (simp add: runs_into_def)
  have Dl: "Day (ws - 1) = D - w - 1" by (simp add: ws Day_before_midnight)
  define t2 where "t2 = UTC tz (ws - msPerDay)"
  have m6: "ws - msPerDay = (D - w - 1) * msPerDay" by (simp add: ws algebra_simps)
  have inner: "new_Date_ymd tz (getFullYear tz (Valid (UTC tz ws - 1))) (getMonth tz (Valid (UTC tz ws - 1)))
      (getDate tz (Valid (UTC tz ws - 1))) = Valid t2"
    using new_Date_fields_of[OF py2, of tz "DateFromTime (ws - 1)" 0 0 0 0] TimeClip_Valid[OF r6]
    by (simp add: new_Date_ymd_def getFullYear_def getMonth_def getDate_def MakeTime_def loc Dl
        t2_def m6)
  have loc2: "LocalTime tz t2 = (D - w - 1) * msPerDay"
    using ex6 by (simp add: reached_def t2_def m6)
  have D2: "Day (LocalTime tz t2) = D - w - 1" by (simp add: loc2 Day_midnight)
  have same: "Day (LocalTime tz t2) = Day (ws - 1)" by (simp add: D2 Dl)
  have py3: "plain_year (YearFromTime (LocalTime tz t2))"
    using fields_same_day[OF same] py2 by simp
  have W2: "WeekDay (LocalTime tz t2) = 6"
    using saturday_arith[of D] by (simp add: WeekDay_def D2 w)
  have ds2: "day_start tz t2 = ws - msPerDay" by (simp add: day_start_def D2 m6)
  have ws2: "week_start tz t2 = ws - 7 * msPerDay"
    by (simp add: week_start_def D2 W2 ws algebra_simps)
  have lws: "startOfWeekSunday tz (Valid t2) = Valid (UTC tz (ws - 7 * msPerDay))"
    using startOfWeekSunday_Valid[of tz t2] py3 ex6 r6 r7 by (simp add: ds2 ws2)
  show "range_end (getCompletedWeeklyRangeFrom tz (Valid t)) = Valid (UTC tz ws - 1)"
    by (simp add: getCompletedWeeklyRangeFrom_def Let_def 1 lwe)
  show "range_start (getCompletedWeeklyRangeFrom tz (Valid t)) = Valid (UTC tz (ws - 7 * msPerDay))"
    by (simp add: getCompletedWeeklyRangeFrom_def Let_def 1 lwe inner lws)
qed

lemma zone_bounds:
  fixes tz :: zone
  assumes "\<forall>x b. \<bar>tz x b\<bar> \<le> msPerDay"
  shows "x - msPerDay \<le> LocalTime tz x" "LocalTime tz x \<le> x + msPerDay"
    "x - msPerDay \<le> UTC tz x" "UTC tz x \<le> x + msPerDay"
proof -
  have a: "\<bar>tz x True\<bar> \<le> msPerDay" "\<bar>tz x False\<bar> \<le> msPerDay" using assms by blast+
  show "x - msPerDay \<le> LocalTime tz x" "LocalTime tz x \<le> x + msPerDay"
    "x - msPerDay \<le> UTC tz x" "UTC tz x \<le> x + msPerDay"
    using a by (simp_all add: LocalTime_def UTC_def)
qed

lemma week_start_le: "week_start tz t \<le> LocalTime tz t"
  and week_start_gt: "LocalTime tz t < week_start tz t + 7 * msPerDay"
  and day_start_le: "day_start tz t \<le> LocalTime tz t"
  and week_day_start: "day_start tz t - 6 * msPerDay \<le> week_start tz t"
  and week_start_day: "week_start tz t \<le> day_start tz t"
  and day_start_gt: "LocalTime tz t - msPerDay < day_start tz t"
proof -
  define lt where "lt = LocalTime tz t"
  have w: "0 \<le> WeekDay lt" "WeekDay lt \<le> 6" using WeekDay_range[of lt] by simp_all
  have a: "(Day lt - WeekDay lt) * msPerDay \<le> Day lt * msPerDay"
    using w(1) by (simp add: msPerDay_def)
  have b: "(Day lt + 1) * msPerDay \<le> (Day lt - WeekDay lt + 7) * msPerDay"
    using w(2) by (simp add: msPerDay_def)
  show "week_start tz t \<le> LocalTime tz t"
    using a Day_upper[of lt] by (simp add: week_start_def lt_def)
  have c: "lt < (Day lt + 1) * msPerDay" using Day_bounds[of lt] by (simp add: algebra_simps)
  have d: "(Day lt - WeekDay lt + 7) * msPerDay = week_start tz t + 7 * msPerDay"
    by (simp add: week_start_def lt_def algebra_simps)
  show "LocalTime tz t < week_start tz t + 7 * msPerDay"
    using b c unfolding d by (simp add: lt_def)
  show "day_start tz t \<le> LocalTime tz t" using Day_upper[of lt] by (simp add: day_start_def lt_def)
  show "week_start tz t \<le> day_start tz t" using a by (simp add: week_start_def day_start_def lt_def)
  have "Day lt * msPerDay - 6 * msPerDay \<le> (Day lt - WeekDay lt) * msPerDay"
    using w(2) by (simp add: msPerDay_def)
  then show "day_start tz t - 6 * msPerDay \<le> week_start tz t"
    by (simp add: week_start_def day_start_def lt_def)
  show "LocalTime tz t - msPerDay < day_start tz t"
    using Day_lower[of lt] by (simp add: day_start_def lt_def)
qed


section \<open>The analyzer\<close>

lemma label_distinct:
  "joy_label \<noteq> sadness_label" "joy_label \<noteq> anger_label" "joy_label \<noteq> anxiety_label"
  "joy_label \<noteq> calm_label" "sadness_label \<noteq> anger_label" "sadness_label \<noteq> anxiety_label"
  "sadness_label \<noteq> calm_label" "anger_label \<noteq> anxiety_label" "anger_label \<noteq> calm_label"
  "anxiety_label \<noteq> calm_label"
  by (simp_all add: joy_label_def sadness_label_def anger_label_def anxiety_label_def calm_label_def)

lemma flag_nonzero: "(if c then (1::int) else 0) \<noteq> 0 \<longleftrightarrow> c"
  by simp

lemma analyze_no_time: "\<exists>fs. analyze tz es note None = Inr fs"
  by (simp add: analyze_def flag_nonzero Let_def)

lemma analyze_Valid: "\<exists>fs. analyze tz es note (Some (Valid t)) = Inr fs"
  by (simp add: analyze_def flag_nonzero Let_def toISOString_def)

text \<open>An invalid date makes \<open>analyze\<close> throw: \<^verbatim>\<open>toISOString\<close> rejects it.\<close>

lemma analyze_Invalid_Date: "analyze tz es note (Some Invalid_Date) = Inl RangeError"
  by (simp add: analyze_def flag_nonzero Let_def toISOString_def)

lemma tone_alone_values:
  "tone_alone [joy_label] = Some \<lparr>h = 50, s = 0.70, l = 0.60\<rparr>"
  "tone_alone [sadness_label] = Some \<lparr>h = 220, s = 0.45, l = 0.45\<rparr>"
  "tone_alone [anger_label] = Some \<lparr>h = 0, s = 0.70, l = 0.45\<rparr>"
  "tone_alone [anxiety_label] = Some \<lparr>h = 200, s = 0.55, l = 0.55\<rparr>"
  "tone_alone [calm_label] = Some \<lparr>h = 120, s = 0.35, l = 0.70\<rparr>"
  "tone_alone [] = Some \<lparr>h = 200, s = 0.5, l = 0.55\<rparr>"
  using label_distinct by (simp_all add: tone_alone_def analyze_def flag_nonzero Let_def)

lemma analyze_tone_explicit:
  assumes "t_now \<noteq> Some Invalid_Date"
  shows "\<exists>fs. analyze tz es note t_now = Inr fs \<and>
     toneColor (flower fs) =
       \<lparr>h = (if joy_label \<in> set (map type es) then 50
             else if sadness_label \<in> set (map type es) then 220
             else if anger_label \<in> set (map type es) then 0
             else if anxiety_label \<in> set (map type es) then 200
             else if calm_label \<in> set (map type es) then 120 else 200),
        s = (if joy_label \<in> set (map type es) \<or> anger_label \<in> set (map type es) then 0.70
             else if sadness_label \<in> set (map type es) then 0.45
             else if anxiety_label \<in> set (map type es) then 0.55
             else if calm_label \<in> set (map type es) then 0.35 else 0.5),
        l = (if calm_label \<in> set (map type es) then 0.70
             else if joy_label \<in> set (map type es) then 0.60
             else if sadness_label \<in> set (map type es) then 0.45
             else if anger_label \<in> set (map type es) then 0.45 else 0.55)\<rparr>"
proof (cases t_now)
  case None
  then show ?thesis by (simp add: analyze_def Let_def flag_nonzero)
next
  case (Some d)
  then obtain t where "t_now = Some (Valid t)" using assms by (cases d) auto
  then show ?thesis by (simp add: analyze_def Let_def flag_nonzero toISOString_def)
qed

text \<open>
  Claim C1, as the specification states it, fails: the tone of a list is not always the tone
  of the first label present in the order joy, sadness, anger, anxiety, calm. For the list
  joy, sadness, calm the lightness is calm's 0.70, while joy's is 0.60.
\<close>

theorem analyze_tone_not_priority:
  "map_option (\<lambda>fs. toneColor (flower fs))
     (case analyze (fixed_offset 0) [\<lparr>type = joy_label, strength = None\<rparr>, \<lparr>type = sadness_label, strength = None\<rparr>,
                      \<lparr>type = calm_label, strength = None\<rparr>] None None of
        Inl e \<Rightarrow> None | Inr fs \<Rightarrow> Some fs)
   \<noteq> priority_tone [\<lparr>type = joy_label, strength = None\<rparr>, \<lparr>type = sadness_label, strength = None\<rparr>,
                      \<lparr>type = calm_label, strength = None\<rparr>]"
  using label_distinct by (simp add: priority_tone_def tone_alone_def analyze_def flag_nonzero Let_def)

text \<open>
  Claim C1, amended. For every emotion list, and every time source that does not return an
  invalid date, \<open>analyze\<close> returns a flower whose hue, saturation and lightness are each
  taken whole from one label, the first one present in an order of its own: joy, sadness,
  anger, anxiety, calm for the hue; joy, anger, sadness, anxiety, calm for the saturation
  (joy and anger share 0.70); calm, joy, sadness, anger, anxiety for the lightness (anxiety
  has the default lightness). When none of the five labels is present the tone is the
  default, h = 200, s = 0.5, l = 0.55. When joy and sadness are both present the hue is 50
  and the saturation 0.70, joy's, and the lightness is joy's 0.60 unless calm is present,
  when it is calm's 0.70.
\<close>

theorem analyze_tone:
  assumes "t_now \<noteq> Some Invalid_Date"
  shows "\<exists>fs. analyze tz es note t_now = Inr fs \<and>
     Some (h (toneColor (flower fs))) = map_option h (tone_alone
        (first_present [joy_label, sadness_label, anger_label, anxiety_label, calm_label]
           (map type es))) \<and>
     Some (s (toneColor (flower fs))) = map_option s (tone_alone
        (first_present [joy_label, anger_label, sadness_label, anxiety_label, calm_label]
           (map type es))) \<and>
     Some (l (toneColor (flower fs))) = map_option l (tone_alone
        (first_present [calm_label, joy_label, sadness_label, anger_label, anxiety_label]
           (map type es))) \<and>
     (set [joy_label, sadness_label, anger_label, anxiety_label, calm_label] \<inter> set (map type es) = {}
        \<longrightarrow> toneColor (flower fs) = \<lparr>h = 200, s = 0.5, l = 0.55\<rparr>) \<and>
     (joy_label \<in> set (map type es) \<and> sadness_label \<in> set (map type es)
        \<longrightarrow> toneColor (flower fs) =
              \<lparr>h = 50, s = 0.70, l = (if calm_label \<in> set (map type es) then 0.70 else 0.60)\<rparr>)"
proof -
  obtain fs where fs: "analyze tz es note t_now = Inr fs"
    and tc: "toneColor (flower fs) =
       \<lparr>h = (if joy_label \<in> set (map type es) then 50
             else if sadness_label \<in> set (map type es) then 220
             else if anger_label \<in> set (map type es) then 0
             else if anxiety_label \<in> set (map type es) then 200
             else if calm_label \<in> set (map type es) then 120 else 200),
        s = (if joy_label \<in> set (map type es) \<or> anger_label \<in> set (map type es) then 0.70
             else if sadness_label \<in> set (map type es) then 0.45
             else if anxiety_label \<in> set (map type es) then 0.55
             else if calm_label \<in> set (map type es) then 0.35 else 0.5),
        l = (if calm_label \<in> set (map type es) then 0.70
             else if joy_label \<in> set (map type es) then 0.60
             else if sadness_label \<in> set (map type es) then 0.45
             else if anger_label \<in> set (map type es) then 0.45 else 0.55)\<rparr>"
    using analyze_tone_explicit[OF assms] by blast
  have H: "Some (h (toneColor (flower fs))) = map_option h (tone_alone
        (first_present [joy_label, sadness_label, anger_label, anxiety_label, calm_label]
           (map type es)))"
    unfolding tc by (simp add: first_present_def tone_alone_values)
  have S: "Some (s (toneColor (flower fs))) = map_option s (tone_alone
        (first_present [joy_label, anger_label, sadness_label, anxiety_label, calm_label]
           (map type es)))"
    unfolding tc by (simp add: first_present_def tone_alone_values)
  have L: "Some (l (toneColor (flower fs))) = map_option l (tone_alone
        (first_present [calm_label, joy_label, sadness_label, anger_label, anxiety_label]
           (map type es)))"
    unfolding tc by (simp add: first_present_def tone_alone_values)
  have D: "set [joy_label, sadness_label, anger_label, anxiety_label, calm_label]
        \<inter> set (map type es) = {} \<longrightarrow> toneColor (flower fs) = \<lparr>h = 200, s = 0.5, l = 0.55\<rparr>"
    unfolding tc by simp
  have J: "joy_label \<in> set (map type es) \<and> sadness_label \<in> set (map type es)
        \<longrightarrow> toneColor (flower fs) =
              \<lparr>h = 50, s = 0.70, l = (if calm_label \<in> set (map type es) then 0.70 else 0.60)\<rparr>"
    unfolding tc by simp
  show ?thesis using fs H S L D J by blast
qed

theorem analyze_tone_witness:
  "(None :: Date option) \<noteq> Some Invalid_Date \<and>
   (\<exists>fs. analyze (fixed_offset 0) [\<lparr>type = joy_label, strength = None\<rparr>, \<lparr>type = sadness_label, strength = None\<rparr>]
             None None = Inr fs \<and>
          toneColor (flower fs) = \<lparr>h = 50, s = 0.70, l = 0.60\<rparr>)"
  using analyze_tone[of None "fixed_offset 0"
      "[\<lparr>type = joy_label, strength = None\<rparr>, \<lparr>type = sadness_label, strength = None\<rparr>]" None]
    label_distinct
  by auto

text \<open>
  Claim C7, as the specification states it, fails when the time source returns an invalid
  date, which an adapter frozen to an unparseable string does. A reference is supplied;
  its hour is NaN, neither below 5 nor at least 22; joy is present: the claim gives the
  weather sunny. But \<^verbatim>\<open>toISOString\<close> throws before \<open>analyze\<close> returns, and there is no
  weather.
\<close>

theorem analyze_weather_invalid_date_throws:
  "analyze (fixed_offset 0) [\<lparr>type = joy_label, strength = None\<rparr>] None (Some Invalid_Date)
     = Inl RangeError"
  by (simp add: analyze_def flag_nonzero Let_def toISOString_def)

text \<open>
  Claim C7, amended. For every emotion list: without a time source \<open>analyze\<close> returns the
  weather cloudy; with a time source that returns a valid instant it returns the weather
  night when the local hour is below 5 or at least 22, whatever the emotions, and
  otherwise sunny if joy is present, else rainy if sadness is present, else cloudy; with a
  time source that returns an invalid date it throws a RangeError and gives no weather.
\<close>

theorem analyze_weather:
  "(\<exists>fs. analyze tz es note None = Inr fs \<and> climate fs = Some \<lparr>weather = cloudy\<rparr>) \<and>
   (\<exists>fs. analyze tz es note (Some (Valid t)) = Inr fs \<and>
      climate fs =
        Some \<lparr>weather =
          (if HourFromTime (LocalTime tz t) < 5 \<or> 22 \<le> HourFromTime (LocalTime tz t) then night
           else if joy_label \<in> set (map type es) then sunny
           else if sadness_label \<in> set (map type es) then rainy
           else cloudy)\<rparr>) \<and>
   analyze tz es note (Some Invalid_Date) = Inl RangeError"
  by (simp add: analyze_def flag_nonzero Let_def toISOString_def getHours_def)

theorem analyze_weather_witness:
  "(\<exists>fs. analyze (fixed_offset 0) [\<lparr>type = joy_label, strength = None\<rparr>] None None = Inr fs \<and>
      climate fs = Some \<lparr>weather = cloudy\<rparr>) \<and>
   (\<exists>fs. analyze (fixed_offset 0) [\<lparr>type = joy_label, strength = None\<rparr>] None
            (Some (Valid 36000000)) = Inr fs \<and>
      climate fs = Some \<lparr>weather = sunny\<rparr>) \<and>
   (\<exists>fs. analyze (fixed_offset 0) [\<lparr>type = joy_label, strength = None\<rparr>] None
            (Some (Valid 82800000)) = Inr fs \<and>
      climate fs = Some \<lparr>weather = night\<rparr>)"
  using analyze_weather[of "fixed_offset 0" "[\<lparr>type = joy_label, strength = None\<rparr>]" None 36000000]
    analyze_weather[of "fixed_offset 0" "[\<lparr>type = joy_label, strength = None\<rparr>]" None 82800000]
  by (simp add: HourFromTime_def LocalTime_def fixed_offset_def msPerHour_def)

text \<open>
  Claim C10, as stated for every input, fails when the time source returns an invalid
  date (an adapter frozen to an unparseable string does): the hour is NaN, the time band
  falls through to evening, and \<^verbatim>\<open>toISOString\<close> throws before \<open>annotate\<close> returns.
\<close>

theorem annotate_invalid_date_throws:
  "annotate (fixed_offset 0) True (Some Invalid_Date) = Inl RangeError"
  by (simp add: annotate_def Let_def toISOString_def getHours_def)

text \<open>
  Claim C10, amended. Without a time source, \<open>annotate\<close> returns the data unchanged, with
  time band and \<open>annotated_at\<close> absent. With a time source that returns a valid instant
  \<open>t\<close> it returns the data unchanged, the time band night for a local hour below 5,
  morning from 5 to 10, afternoon from 11 to 16 and evening otherwise, and as
  \<open>annotated_at\<close> the ISO rendering of \<open>t\<close>. With a time source that returns an invalid
  date it throws a RangeError.
\<close>

theorem annotate_result:
  "annotate tz x None = Inr \<lparr>data = x, timeBand = None, annotation_annotated_at = None\<rparr> \<and>
   annotate tz x (Some (Valid t)) =
     Inr \<lparr>data = x,
          timeBand = Some (if HourFromTime (LocalTime tz t) < 5 then Night
                           else if HourFromTime (LocalTime tz t) < 11 then Morning
                           else if HourFromTime (LocalTime tz t) < 17 then Afternoon
                           else Evening),
          annotation_annotated_at = Some (iso_string t)\<rparr> \<and>
   annotate tz x (Some Invalid_Date) = Inl RangeError"
  by (simp add: annotate_def Let_def toISOString_def getHours_def)

text \<open>
  An instance: one hour before midnight UTC of 25 October 2025, read nine hours east of
  UTC, is in the morning of 26 October.
\<close>

lemma annotate_example:
  "annotate (fixed_offset 32400000) True (Some (Valid 1761429600000)) =
     Inr \<lparr>data = True, timeBand = Some Morning,
          annotation_annotated_at = Some (ascii ''2025-10-25T22:00:00.000Z'')\<rparr>"
  by code_simp


section \<open>Report triggers\<close>

lemma seven_oclock_arith:
  fixes r :: int
  shows "(r div 3600000 = 7 \<and> (r div 60000) mod 60 = 0) \<longleftrightarrow> (25200000 \<le> r \<and> r < 25260000)"
proof -
  define m where "m = r div 60000"
  have e: "(60000::int) * 60 = 3600000" by simp
  have hm: "r div 3600000 = m div 60"
    unfolding m_def by (rule zdiv_zmult2_eq[of 60 r 60000, unfolded e]) simp
  have m: "60000 * m \<le> r" "r < 60000 * m + 60000" unfolding m_def by linarith+
  have dm: "m = 60 * (m div 60) + m mod 60" by simp
  have "(m div 60 = 7 \<and> m mod 60 = 0) \<longleftrightarrow> m = 420"
  proof
    assume "m div 60 = 7 \<and> m mod 60 = 0"
    then show "m = 420" using dm by simp
  next
    assume "m = 420"
    then show "m div 60 = 7 \<and> m mod 60 = 0" by simp
  qed
  moreover have "m = 420 \<longleftrightarrow> (25200000 \<le> r \<and> r < 25260000)" using m by linarith
  ultimately show ?thesis unfolding hm m_def[symmetric] by simp
qed

lemma hour_minute_of_local:
  "HourFromTime t = TimeWithinDay t div msPerHour \<and>
   MinFromTime t = (TimeWithinDay t div msPerMinute) mod 60"
  using HourFromTime_MakeDate[of "TimeWithinDay t" "Day t"]
    MinFromTime_MakeDate[of "Day t" "TimeWithinDay t"] TimeWithinDay_range[of t]
  by (simp add: MakeDate_Day MinFromTime_def)

lemma seven_oclock:
  "(HourFromTime t = 7 \<and> MinFromTime t = 0) \<longleftrightarrow>
   (7 * msPerHour \<le> TimeWithinDay t \<and> TimeWithinDay t < 7 * msPerHour + msPerMinute)"
  using seven_oclock_arith[of "TimeWithinDay t"]
  by (simp add: hour_minute_of_local msPerHour_def msPerMinute_def)

text \<open>
  Claim C5. For every instant, \<open>isWeeklyReportTrigger\<close> holds exactly when the local day is
  a Sunday and the local time of day lies from 07:00:00.000 up to, not including,
  07:01:00.000 (hour 7, minute 0, any second and millisecond), and
  \<open>isMonthlyReportTrigger\<close> holds exactly when the local day of the month is 1 and the time
  of day lies in the same minute. Both are false at 07:01:00.000, and the weekly trigger is
  false on a Monday. Neither holds of an invalid date.
\<close>

theorem report_triggers:
  "(isWeeklyReportTrigger tz (Valid t) \<longleftrightarrow>
      WeekDay (LocalTime tz t) = 0 \<and>
      7 * msPerHour \<le> TimeWithinDay (LocalTime tz t) \<and>
      TimeWithinDay (LocalTime tz t) < 7 * msPerHour + msPerMinute) \<and>
   (isMonthlyReportTrigger tz (Valid t) \<longleftrightarrow>
      DateFromTime (LocalTime tz t) = 1 \<and>
      7 * msPerHour \<le> TimeWithinDay (LocalTime tz t) \<and>
      TimeWithinDay (LocalTime tz t) < 7 * msPerHour + msPerMinute) \<and>
   (TimeWithinDay (LocalTime tz t) = 7 * msPerHour + msPerMinute \<longrightarrow>
      \<not> isWeeklyReportTrigger tz (Valid t) \<and> \<not> isMonthlyReportTrigger tz (Valid t)) \<and>
   (WeekDay (LocalTime tz t) = 1 \<longrightarrow> \<not> isWeeklyReportTrigger tz (Valid t)) \<and>
   \<not> isWeeklyReportTrigger tz Invalid_Date \<and> \<not> isMonthlyReportTrigger tz Invalid_Date"
  using seven_oclock[of "LocalTime tz t"]
  by (auto simp: isWeeklyReportTrigger_def isMonthlyReportTrigger_def getDay_def getDate_def
      getHours_def getMinutes_def)

text \<open>
  In the time zone nine hours east of UTC: Sunday 26 October 2025 at 07:00:00 triggers the
  weekly report; the same Sunday at 07:01:00 triggers neither report; Monday 27 October
  at 07:00:00 does not trigger the weekly report; Saturday 1 November at 07:00:00 triggers
  the monthly report.
\<close>

theorem report_triggers_witness:
  "isWeeklyReportTrigger (fixed_offset 32400000) (Valid 1761429600000) \<and>
   (TimeWithinDay (LocalTime (fixed_offset 32400000) 1761429660000) = 7 * msPerHour + msPerMinute \<and>
    \<not> isWeeklyReportTrigger (fixed_offset 32400000) (Valid 1761429660000) \<and>
    \<not> isMonthlyReportTrigger (fixed_offset 32400000) (Valid 1761429660000)) \<and>
   (WeekDay (LocalTime (fixed_offset 32400000) 1761516000000) = 1 \<and>
    \<not> isWeeklyReportTrigger (fixed_offset 32400000) (Valid 1761516000000)) \<and>
   isMonthlyReportTrigger (fixed_offset 32400000) (Valid 1761948000000)"
proof -
  have a: "isWeeklyReportTrigger (fixed_offset 32400000) (Valid 1761429600000)"
    using report_triggers[of "fixed_offset 32400000" 1761429600000]
    by (simp add: WeekDay_def Day_def TimeWithinDay_def LocalTime_def fixed_offset_def msPerDay_def msPerHour_def
        msPerMinute_def)
  have b1: "TimeWithinDay (LocalTime (fixed_offset 32400000) 1761429660000) = 7 * msPerHour + msPerMinute"
    by (simp add: TimeWithinDay_def LocalTime_def fixed_offset_def msPerDay_def msPerHour_def msPerMinute_def)
  have b: "\<not> isWeeklyReportTrigger (fixed_offset 32400000) (Valid 1761429660000) \<and>
      \<not> isMonthlyReportTrigger (fixed_offset 32400000) (Valid 1761429660000)"
    using report_triggers[of "fixed_offset 32400000" 1761429660000] b1 by blast
  have c1: "WeekDay (LocalTime (fixed_offset 32400000) 1761516000000) = 1"
    by (simp add: WeekDay_def Day_def LocalTime_def fixed_offset_def msPerDay_def)
  have c: "\<not> isWeeklyReportTrigger (fixed_offset 32400000) (Valid 1761516000000)"
    using report_triggers[of "fixed_offset 32400000" 1761516000000] c1 by blast
  have d1: "DateFromTime (LocalTime (fixed_offset 32400000) 1761948000000) = 1"
    by (simp add: DateFromTime_def MonthFromTime_def DayWithinYear_def InLeapYear_def
        YearFromTime_def YearFromDay_def Day_def DayFromYear_def DaysInYear_def LocalTime_def
        fixed_offset_def msPerDay_def Let_def)
  have d: "isMonthlyReportTrigger (fixed_offset 32400000) (Valid 1761948000000)"
    using report_triggers[of "fixed_offset 32400000" 1761948000000] d1
    by (simp add: TimeWithinDay_def LocalTime_def fixed_offset_def msPerDay_def msPerHour_def msPerMinute_def)
  show ?thesis using a b1 b c1 c d by blast
qed


section \<open>Completed weekly and monthly ranges\<close>

lemma time_fields_midnight:
  "HourFromTime (n * msPerDay) = 0" "MinFromTime (n * msPerDay) = 0"
  "SecFromTime (n * msPerDay) = 0" "msFromTime (n * msPerDay) = 0"
  using HourFromTime_MakeDate[of 0 n] MinFromTime_MakeDate[of n 0] SecFromTime_MakeDate[of n 0]
    msFromTime_MakeDate[of n 0]
  by (simp_all add: MakeDate_def msPerDay_def MinFromTime_def SecFromTime_def msFromTime_def msPerHour_def)

lemma time_fields_before_midnight:
  "HourFromTime (n * msPerDay - 1) = 23" "MinFromTime (n * msPerDay - 1) = 59"
  "SecFromTime (n * msPerDay - 1) = 59" "msFromTime (n * msPerDay - 1) = 999"
proof -
  have e: "n * msPerDay - 1 = MakeDate (n - 1) (msPerDay - 1)"
    by (simp add: MakeDate_def algebra_simps)
  show "HourFromTime (n * msPerDay - 1) = 23"
    unfolding e using HourFromTime_MakeDate[of "msPerDay - 1" "n - 1"]
    by (simp add: msPerDay_def msPerHour_def)
  show "MinFromTime (n * msPerDay - 1) = 59"
    unfolding e MinFromTime_MakeDate by (simp add: MinFromTime_def msPerDay_def msPerMinute_def)
  show "SecFromTime (n * msPerDay - 1) = 59"
    unfolding e SecFromTime_MakeDate by (simp add: SecFromTime_def msPerDay_def msPerSecond_def)
  show "msFromTime (n * msPerDay - 1) = 999"
    unfolding e msFromTime_MakeDate by (simp add: msFromTime_def msPerDay_def msPerSecond_def)
qed

lemma completed_week_general:
  fixes tz :: zone and t :: int
  defines "ws \<equiv> week_start tz t"
  assumes lo: "min_time + 16 * msPerDay \<le> t" and hi: "t \<le> max_time - 2 * msPerDay"
    and B: "\<forall>x b. \<bar>tz x b\<bar> \<le> msPerDay"
    and py: "plain_year (YearFromTime (LocalTime tz t))"
    and py2: "plain_year (YearFromTime (ws - 1))"
    and ex0: "reached tz (day_start tz t)"
    and cont: "runs_into tz ws"
    and ex6: "reached tz (ws - msPerDay)"
  shows "range_start (getCurrentWeeklyRangeContaining tz (Valid t)) = Valid (UTC tz ws)"
    and "range_end (getCompletedWeeklyRangeFrom tz (Valid t)) = Valid (UTC tz ws - 1)"
    and "range_start (getCompletedWeeklyRangeFrom tz (Valid t)) = Valid (UTC tz (ws - 7 * msPerDay))"
proof -
  note zb = zone_bounds[OF B]
  have l1: "t - msPerDay \<le> LocalTime tz t" "LocalTime tz t \<le> t + msPerDay" using zb by simp_all
  note d = day_start_le[of tz t] day_start_gt[of tz t] week_day_start[of tz t] week_start_day[of tz t]
  have r0: "min_time \<le> UTC tz (day_start tz t)" "UTC tz (day_start tz t) \<le> max_time"
    using zb(3)[of "day_start tz t"] zb(4)[of "day_start tz t"] l1 d lo hi
    by (simp_all add: msPerDay_def)
  have r1: "min_time \<le> UTC tz ws - 1" "UTC tz ws \<le> max_time"
    using zb(3)[of ws] zb(4)[of ws] l1 d lo hi by (simp_all add: ws_def msPerDay_def)
  have r6: "min_time \<le> UTC tz (ws - msPerDay)" "UTC tz (ws - msPerDay) \<le> max_time"
    using zb(3)[of "ws - msPerDay"] zb(4)[of "ws - msPerDay"] l1 d lo hi
    by (simp_all add: ws_def msPerDay_def)
  have r7: "min_time \<le> UTC tz (ws - 7 * msPerDay)" "UTC tz (ws - 7 * msPerDay) \<le> max_time"
    using zb(3)[of "ws - 7 * msPerDay"] zb(4)[of "ws - 7 * msPerDay"] l1 d lo hi
    by (simp_all add: ws_def msPerDay_def)
  note r = completed_weekly_range[OF py py2[unfolded ws_def] ex0 cont[unfolded ws_def]
      ex6[unfolded ws_def] r0 r1[unfolded ws_def] r6[unfolded ws_def] r7[unfolded ws_def]]
  show "range_start (getCurrentWeeklyRangeContaining tz (Valid t)) = Valid (UTC tz ws)"
    using r(1) by (simp add: getCurrentWeeklyRangeContaining_def ws_def)
  show "range_end (getCompletedWeeklyRangeFrom tz (Valid t)) = Valid (UTC tz ws - 1)"
    using r(2) by (simp add: ws_def)
  show "range_start (getCompletedWeeklyRangeFrom tz (Valid t)) = Valid (UTC tz (ws - 7 * msPerDay))"
    using r(3) by (simp add: ws_def)
qed

text \<open>
  Claim C3, as the specification states it, fails at the earliest instants a Date can
  hold: for the reference instant \<open>-8640000000000000\<close> (Tuesday 20 April of the year
  -271821, in UTC) the Sunday that starts its week lies before the range of Date, so
  \<open>setDate\<close> leaves an invalid date and the completed range has neither start nor end.
\<close>

theorem completed_week_out_of_range:
  "getCompletedWeeklyRangeFrom (fixed_offset 0) (Valid (- 8640000000000000)) =
     \<lparr>range_start = Invalid_Date, range_end = Invalid_Date\<rparr>"
  by code_simp

text \<open>
  The Date constructor reads a year from 0 to 99 as 1900 to 1999, so \<open>startOfDay\<close> moves a
  date of those years into the twentieth century. In UTC, for 15 June of the year 50 at
  noon, the completed week is the single day 11 June 1950 and the completed month is May
  1950. The amended claims leave these years out.
\<close>

lemma two_digit_year_week:
  "getCompletedWeeklyRangeFrom (fixed_offset 0) (Valid (- 60574996800000)) =
     \<lparr>range_start = Valid (- 617241600000), range_end = Valid (- 617155200001)\<rparr>"
  by code_simp

lemma two_digit_year_month:
  "getCompletedMonthlyRangeFrom (fixed_offset 0) (Valid (- 60574996800000)) =
     \<lparr>range_start = Valid (- 620784000000), range_end = Valid (- 618105600001)\<rparr>"
  by code_simp

text \<open>
  A week or a month that contains a change of offset is shorter or longer than its days
  add up to. In New York, called on Sunday 16 March 2025 at 07:00, the completed week runs
  from Sunday 9 March 00:00:00.000 to Saturday 15 March 23:59:59.999 on the local clock,
  and lasts 7 days minus 1 millisecond minus the hour that 9 March skips. Called on 1 April
  2025 at 07:00, the completed month is March 2025, one hour short of 31 days minus 1
  millisecond.
\<close>

lemma week_across_offset_change:
  "getCompletedWeeklyRangeFrom new_york (Valid 1742122800000) =
     \<lparr>range_start = Valid 1741496400000, range_end = Valid 1742097599999\<rparr>"
  "(1742097599999 :: int) - 1741496400000 = 7 * msPerDay - 1 - msPerHour"
  by code_simp+

lemma month_across_offset_change:
  "getCompletedMonthlyRangeFrom new_york (Valid 1743505200000) =
     \<lparr>range_start = Valid 1740805200000, range_end = Valid 1743479999999\<rparr>"
  "(1743479999999 :: int) - 1740805200000 = 31 * msPerDay - 1 - msPerHour"
  by code_simp+

text \<open>
  Where a change of offset skips the midnight of a Sunday, the week that the code
  computes starts at the first local time that exists on that Sunday. In Sao Paulo, called
  on Wednesday 14 November 2018 at noon, the completed week starts on Sunday 4 November at
  01:00:00.000. The amended claim is stated for the local midnights that the local clock
  reaches.
\<close>

lemma week_start_skipped:
  "getCompletedWeeklyRangeFrom sao_paulo (Valid 1542204000000) =
     \<lparr>range_start = Valid 1541300400000, range_end = Valid 1541901599999\<rparr>"
  "getDay sao_paulo (Valid 1541300400000) = Some 0"
  "getHours sao_paulo (Valid 1541300400000) = Some 1"
  "\<not> reached sao_paulo (week_start sao_paulo 1542204000000 - 7 * msPerDay)"
  by code_simp+

text \<open>
  Claim C3, amended. For every reference date, valid or not, the end of
  \<open>getCompletedWeeklyRangeFrom\<close> is the date made from the time value of the start of
  \<open>getCurrentWeeklyRangeContaining\<close> minus 1 millisecond, which is invalid when that start is
  invalid or is the earliest instant a Date can hold.

  Let moreover \<open>ref\<close> be a valid instant \<open>t\<close>, at least 16 days after the earliest and 2
  days before the latest instant a Date can hold, in a zone whose offsets do not exceed 24
  hours; let neither \<open>ref\<close> nor the last millisecond before its week lie in a local year
  from 0 to 99; and let the local clock reach the midnight that starts the local day of
  \<open>ref\<close>, run into the Sunday midnight that starts its week, and reach the midnights that
  start the Saturday and the Sunday before. Then both dates of the completed range are
  valid and the end is the start of the current week minus 1 millisecond; on the local
  clock the start is a Sunday at 00:00:00.000 and the end the Saturday six calendar days
  later at 23:59:59.999; the local clock advances 7 days minus 1 millisecond from start to
  end, and the time that elapses is that less the amount by which the offset grows from
  start to end (7 days minus 1 millisecond exactly, when the offset is the same at both);
  and the local time of \<open>ref\<close> lies in the seven days that follow the end.
\<close>

theorem completed_week:
  fixes tz :: zone
  shows "range_end (getCompletedWeeklyRangeFrom tz ref) =
       (case range_start (getCurrentWeeklyRangeContaining tz ref) of
          Invalid_Date \<Rightarrow> Invalid_Date
        | Valid u \<Rightarrow> TimeClip (u - 1)) \<and>
     (ref = Valid t \<and> min_time + 16 * msPerDay \<le> t \<and> t \<le> max_time - 2 * msPerDay \<and>
      (\<forall>x b. \<bar>tz x b\<bar> \<le> msPerDay) \<and>
      plain_year (YearFromTime (LocalTime tz t)) \<and>
      plain_year (YearFromTime (week_start tz t - 1)) \<and>
      reached tz (day_start tz t) \<and> runs_into tz (week_start tz t) \<and>
      reached tz (week_start tz t - msPerDay) \<and> reached tz (week_start tz t - 7 * msPerDay)
      \<longrightarrow> (\<exists>b e. range_start (getCompletedWeeklyRangeFrom tz ref) = Valid b \<and>
             range_end (getCompletedWeeklyRangeFrom tz ref) = Valid e \<and>
             range_start (getCurrentWeeklyRangeContaining tz ref) = Valid (e + 1) \<and>
             getDay tz (Valid b) = Some 0 \<and> getHours tz (Valid b) = Some 0 \<and>
             getMinutes tz (Valid b) = Some 0 \<and> getSeconds tz (Valid b) = Some 0 \<and>
             getMilliseconds tz (Valid b) = Some 0 \<and>
             getDay tz (Valid e) = Some 6 \<and> getHours tz (Valid e) = Some 23 \<and>
             getMinutes tz (Valid e) = Some 59 \<and> getSeconds tz (Valid e) = Some 59 \<and>
             getMilliseconds tz (Valid e) = Some 999 \<and>
             Day (LocalTime tz e) = Day (LocalTime tz b) + 6 \<and>
             LocalTime tz e - LocalTime tz b = 7 * msPerDay - 1 \<and>
             e - b = 7 * msPerDay - 1 - (tz e True - tz b True) \<and>
             LocalTime tz e < LocalTime tz t \<and> LocalTime tz t \<le> LocalTime tz e + 7 * msPerDay))"
proof (intro conjI impI)
  show "range_end (getCompletedWeeklyRangeFrom tz ref) =
       (case range_start (getCurrentWeeklyRangeContaining tz ref) of
          Invalid_Date \<Rightarrow> Invalid_Date
        | Valid u \<Rightarrow> TimeClip (u - 1))"
    by (simp add: getCompletedWeeklyRangeFrom_def getCurrentWeeklyRangeContaining_def Let_def
        new_Date_value_def num_sub_def getTime_def split: Date.splits)
next
  assume H: "ref = Valid t \<and> min_time + 16 * msPerDay \<le> t \<and> t \<le> max_time - 2 * msPerDay \<and>
      (\<forall>x b. \<bar>tz x b\<bar> \<le> msPerDay) \<and>
      plain_year (YearFromTime (LocalTime tz t)) \<and>
      plain_year (YearFromTime (week_start tz t - 1)) \<and>
      reached tz (day_start tz t) \<and> runs_into tz (week_start tz t) \<and>
      reached tz (week_start tz t - msPerDay) \<and> reached tz (week_start tz t - 7 * msPerDay)"
  define ws where "ws = week_start tz t"
  define n where "n = Day (LocalTime tz t) - WeekDay (LocalTime tz t)"
  have wsn: "ws = n * msPerDay" by (simp add: ws_def n_def week_start_def)
  have ref: "ref = Valid t" using H by simp
  have r1: "range_start (getCurrentWeeklyRangeContaining tz ref) = Valid (UTC tz ws - 1 + 1)"
    and r2: "range_end (getCompletedWeeklyRangeFrom tz ref) = Valid (UTC tz ws - 1)"
    and r3: "range_start (getCompletedWeeklyRangeFrom tz ref) = Valid (UTC tz (ws - 7 * msPerDay))"
    using completed_week_general[of t tz] H by (simp_all add: ws_def ref)
  have lb: "LocalTime tz (UTC tz (ws - 7 * msPerDay)) = (n - 7) * msPerDay"
    using H by (simp add: reached_def ws_def[symmetric] wsn algebra_simps)
  have le: "LocalTime tz (UTC tz ws - 1) = n * msPerDay - 1"
    using H by (simp add: runs_into_def ws_def[symmetric] wsn)
  have sun: "(n + 4) mod 7 = 0" using sunday_arith[of "Day (LocalTime tz t)"]
    by (simp add: n_def WeekDay_def)
  have "(n - 7 + 4) mod 7 = (n + 4) mod 7"
    using mod_mult_self1[of "n + 4" "-1" 7] by simp
  then have wb: "WeekDay ((n - 7) * msPerDay) = 0"
    using sun by (simp add: WeekDay_def Day_midnight)
  have we: "WeekDay (n * msPerDay - 1) = 6"
    using saturday_arith[of "Day (LocalTime tz t)"]
    by (simp add: WeekDay_def Day_before_midnight n_def)
  have days: "Day (n * msPerDay - 1) = Day ((n - 7) * msPerDay) + 6"
    by (simp add: Day_midnight Day_before_midnight)
  have span: "(n * msPerDay - 1) - (n - 7) * msPerDay = 7 * msPerDay - 1"
    by (simp add: algebra_simps)
  have el: "(UTC tz ws - 1) - UTC tz (ws - 7 * msPerDay) =
      7 * msPerDay - 1 - (tz (UTC tz ws - 1) True - tz (UTC tz (ws - 7 * msPerDay)) True)"
    using lb le span unfolding LocalTime_def by linarith
  have t1: "n * msPerDay - 1 < LocalTime tz t"
    using week_start_le[of tz t] by (simp add: ws_def[symmetric] wsn)
  have t2: "LocalTime tz t \<le> n * msPerDay - 1 + 7 * msPerDay"
    using week_start_gt[of tz t] by (simp add: ws_def[symmetric] wsn)
  show "\<exists>b e. range_start (getCompletedWeeklyRangeFrom tz ref) = Valid b \<and>
             range_end (getCompletedWeeklyRangeFrom tz ref) = Valid e \<and>
             range_start (getCurrentWeeklyRangeContaining tz ref) = Valid (e + 1) \<and>
             getDay tz (Valid b) = Some 0 \<and> getHours tz (Valid b) = Some 0 \<and>
             getMinutes tz (Valid b) = Some 0 \<and> getSeconds tz (Valid b) = Some 0 \<and>
             getMilliseconds tz (Valid b) = Some 0 \<and>
             getDay tz (Valid e) = Some 6 \<and> getHours tz (Valid e) = Some 23 \<and>
             getMinutes tz (Valid e) = Some 59 \<and> getSeconds tz (Valid e) = Some 59 \<and>
             getMilliseconds tz (Valid e) = Some 999 \<and>
             Day (LocalTime tz e) = Day (LocalTime tz b) + 6 \<and>
             LocalTime tz e - LocalTime tz b = 7 * msPerDay - 1 \<and>
             e - b = 7 * msPerDay - 1 - (tz e True - tz b True) \<and>
             LocalTime tz e < LocalTime tz t \<and> LocalTime tz t \<le> LocalTime tz e + 7 * msPerDay"
    apply (rule exI[of _ "UTC tz (ws - 7 * msPerDay)"])
    apply (rule exI[of _ "UTC tz ws - 1"])
    using r1 r2 r3 el t1 t2 days span
    by (simp add: getDay_def getHours_def getMinutes_def getSeconds_def getMilliseconds_def
        lb le wb we time_fields_midnight time_fields_before_midnight)
qed

theorem completed_week_witness:
  "(min_time + 16 * msPerDay \<le> 1742122800000 \<and> 1742122800000 \<le> max_time - 2 * msPerDay \<and>
    (\<forall>x b. \<bar>new_york x b\<bar> \<le> msPerDay) \<and>
    plain_year (YearFromTime (LocalTime new_york 1742122800000)) \<and>
    plain_year (YearFromTime (week_start new_york 1742122800000 - 1)) \<and>
    reached new_york (day_start new_york 1742122800000) \<and>
    runs_into new_york (week_start new_york 1742122800000) \<and>
    reached new_york (week_start new_york 1742122800000 - msPerDay) \<and>
    reached new_york (week_start new_york 1742122800000 - 7 * msPerDay)) \<and>
   getCompletedWeeklyRangeFrom new_york (Valid 1742122800000) =
     \<lparr>range_start = Valid 1741496400000, range_end = Valid 1742097599999\<rparr> \<and>
   range_start (getCurrentWeeklyRangeContaining new_york (Valid 1742122800000)) = Valid 1742097600000 \<and>
   getDay new_york (Valid 1741496400000) = Some 0 \<and>
   getHours new_york (Valid 1741496400000) = Some 0 \<and>
   getDay new_york (Valid 1742097599999) = Some 6 \<and>
   getHours new_york (Valid 1742097599999) = Some 23 \<and>
   LocalTime new_york 1742097599999 - LocalTime new_york 1741496400000 = 7 * msPerDay - 1 \<and>
   (1742097599999 :: int) - 1741496400000 =
     7 * msPerDay - 1 - (new_york 1742097599999 True - new_york 1741496400000 True) \<and>
   new_york 1742097599999 True - new_york 1741496400000 True = msPerHour"
proof -
  let ?t = "1742122800000 :: int"
  have h1: "min_time + 16 * msPerDay \<le> ?t" "?t \<le> max_time - 2 * msPerDay"
    by (simp_all add: min_time_def max_time_def msPerDay_def)
  have h2: "\<forall>x b. \<bar>new_york x b\<bar> \<le> msPerDay" by (simp add: new_york_def msPerDay_def)
  have h3: "plain_year (YearFromTime (LocalTime new_york ?t))"
    "plain_year (YearFromTime (week_start new_york ?t - 1))"
    by code_simp+
  have h4: "reached new_york (day_start new_york ?t)" "runs_into new_york (week_start new_york ?t)"
    "reached new_york (week_start new_york ?t - msPerDay)"
    "reached new_york (week_start new_york ?t - 7 * msPerDay)"
    by code_simp+
  have v: "getCompletedWeeklyRangeFrom new_york (Valid ?t) =
     \<lparr>range_start = Valid 1741496400000, range_end = Valid 1742097599999\<rparr>"
    by code_simp
  have off: "new_york 1742097599999 True - new_york 1741496400000 True = msPerHour"
    by (simp add: new_york_def msPerHour_def)
  from completed_week[of new_york "Valid ?t" ?t] h1 h2 h3 h4
  obtain b e where be: "range_start (getCompletedWeeklyRangeFrom new_york (Valid ?t)) = Valid b"
      "range_end (getCompletedWeeklyRangeFrom new_york (Valid ?t)) = Valid e"
      "range_start (getCurrentWeeklyRangeContaining new_york (Valid ?t)) = Valid (e + 1)"
      "getDay new_york (Valid b) = Some 0" "getHours new_york (Valid b) = Some 0"
      "getDay new_york (Valid e) = Some 6" "getHours new_york (Valid e) = Some 23"
      "LocalTime new_york e - LocalTime new_york b = 7 * msPerDay - 1"
      "e - b = 7 * msPerDay - 1 - (new_york e True - new_york b True)"
    by blast
  have b: "b = 1741496400000" and e: "e = 1742097599999" using be(1,2) v by simp_all
  show ?thesis using h1 h2 h3 h4 v off be(3-9) unfolding b e by simp
qed

lemma DaysInMonth_range: "28 \<le> DaysInMonth y mn \<and> DaysInMonth y mn \<le> 31"
  by (simp add: DaysInMonth_def month_len_def)

lemma MonthStart_pred:
  assumes "1 \<le> mn" "mn \<le> 11"
  shows "MonthStart mn lp = MonthStart (mn - 1) lp + month_len (mn - 1) lp"
proof -
  have "mn = 0 \<or> mn = 1 \<or> mn = 2 \<or> mn = 3 \<or> mn = 4 \<or> mn = 5 \<or> mn = 6
      \<or> mn = 7 \<or> mn = 8 \<or> mn = 9 \<or> mn = 10 \<or> mn = 11"
    using assms by (intro month_cases) simp_all
  then show ?thesis using assms(1)
    by (elim disjE) (simp_all add: MonthStart_def month_len_def)
qed

lemma prev_month_last_day:
  fixes mn y :: int
  assumes m: "0 \<le> mn" "mn \<le> 11"
  defines "py \<equiv> (if mn = 0 then y - 1 else y)" and "pm \<equiv> (if mn = 0 then 11 else mn - 1)"
  shows "MakeDay y mn 1 - 1 = MakeDay py pm (DaysInMonth py pm)"
proof (cases "mn = 0")
  case True
  have "DayFromYear y = DayFromYear (y - 1) + DaysInYear (y - 1)"
    using DayFromYear_Suc[of "y - 1"] by simp
  then show ?thesis
    using True DaysInYear_cases[of "y - 1"]
    by (auto simp: py_def pm_def MakeDay_month DaysInMonth_def month_len_def MonthStart_def)
next
  case False
  then have m1: "1 \<le> mn" using m by simp
  have pm: "0 \<le> mn - 1" "mn - 1 \<le> 11" using m1 m by simp_all
  show ?thesis
    using False MonthStart_pred[OF m1 m(2)]
    by (simp add: py_def pm_def MakeDay_month[OF m] MakeDay_month[OF pm] DaysInMonth_def)
qed

lemma completed_month_general:
  fixes tz :: zone and t :: int
  defines "lt \<equiv> LocalTime tz t"
  defines "py \<equiv> (if MonthFromTime lt = 0 then YearFromTime lt - 1 else YearFromTime lt)"
    and "pm \<equiv> (if MonthFromTime lt = 0 then 11 else MonthFromTime lt - 1)"
  assumes lo: "min_time + 64 * msPerDay \<le> t" and hi: "t \<le> max_time - 2 * msPerDay"
    and B: "\<forall>x b. \<bar>tz x b\<bar> \<le> msPerDay"
    and py1: "plain_year (YearFromTime lt)"
    and py2: "plain_year (YearFromTime (month_start tz t - 1))"
    and cont: "runs_into tz (month_start tz t)"
  shows "range_start (getCurrentMonthlyRangeContaining tz (Valid t)) = Valid (UTC tz (month_start tz t))"
    and "range_end (getCompletedMonthlyRangeFrom tz (Valid t)) = Valid (UTC tz (month_start tz t) - 1)"
    and "range_start (getCompletedMonthlyRangeFrom tz (Valid t)) = Valid (UTC tz (prev_month_start tz t))"
    and "Day (month_start tz t - 1) = MakeDay py pm (DaysInMonth py pm)"
    and "prev_month_start tz t = MakeDay py pm 1 * msPerDay"
    and "month_start tz t - prev_month_start tz t = DaysInMonth py pm * msPerDay"
proof -
  define D where "D = Day lt"
  define dd where "dd = DateFromTime lt"
  define n where "n = D - dd + 1"
  define ms where "ms = month_start tz t"
  note zb = zone_bounds[OF B]
  have l1: "t - msPerDay \<le> lt" "lt \<le> t + msPerDay" using zb by (simp_all add: lt_def)
  have ms: "ms = n * msPerDay" by (simp add: ms_def month_start_def n_def D_def dd_def lt_def)
  have dd1: "1 \<le> dd" "dd \<le> 31"
    using DateFromTime_range[of lt] DaysInMonth_range[of "YearFromTime lt" "MonthFromTime lt"]
    by (simp_all add: dd_def)
  have "n * msPerDay \<le> D * msPerDay" using dd1 by (simp add: n_def msPerDay_def)
  then have mle: "ms \<le> lt" using Day_upper[of lt] by (simp add: ms D_def)
  have "D * msPerDay - 30 * msPerDay \<le> n * msPerDay" using dd1 by (simp add: n_def msPerDay_def)
  then have mge: "lt - 31 * msPerDay < ms" using Day_lower[of lt] by (simp add: ms D_def)
  have up: "UTC tz ms \<le> max_time" using zb(4)[of ms] mle l1 hi by (simp add: msPerDay_def)
  have lo2: "min_time \<le> UTC tz ms - 1" using zb(3)[of ms] mge l1 lo by (simp add: msPerDay_def)
  have lo1: "min_time \<le> UTC tz ms" using lo2 by simp
  have som: "startOfMonth tz (Valid t) = TimeClip (UTC tz ms)"
    using new_Date_fields_of[OF py1, of tz 1 0 0 0 0]
    by (simp add: startOfMonth_def getFullYear_def getMonth_def MakeTime_def month_start_def lt_def ms_def)
  have 1: "startOfMonth tz (Valid t) = Valid (UTC tz ms)"
    using som TimeClip_Valid[OF lo1 up] by simp
  show "range_start (getCurrentMonthlyRangeContaining tz (Valid t)) = Valid (UTC tz (month_start tz t))"
    using 1 by (simp add: getCurrentMonthlyRangeContaining_def ms_def)
  have up2: "UTC tz ms - 1 \<le> max_time" using up by simp
  have lme: "new_Date_value (num_sub (getTime (Valid (UTC tz ms))) (Some 1)) = Valid (UTC tz ms - 1)"
    using TimeClip_Valid[OF lo2 up2] by (simp add: new_Date_value_def num_sub_def getTime_def)
  have 2: "range_end (getCompletedMonthlyRangeFrom tz (Valid t)) = Valid (UTC tz ms - 1)"
    by (simp add: getCompletedMonthlyRangeFrom_def Let_def 1 lme)
  then show "range_end (getCompletedMonthlyRangeFrom tz (Valid t)) = Valid (UTC tz (month_start tz t) - 1)"
    by (simp add: ms_def)
  have loc: "LocalTime tz (UTC tz ms - 1) = ms - 1"
    using cont by (simp add: runs_into_def ms_def)
  have md: "MakeDay (YearFromTime lt) (MonthFromTime lt) 1 = n"
    by (simp add: MakeDay_of_fields n_def D_def dd_def)
  have De: "Day (ms - 1) = n - 1" by (simp add: ms Day_before_midnight)
  have 4: "Day (ms - 1) = MakeDay py pm (DaysInMonth py pm)"
    using prev_month_last_day[of "MonthFromTime lt" "YearFromTime lt"] MonthFromTime_range[of lt]
    by (simp add: De md py_def pm_def)
  then show "Day (month_start tz t - 1) = MakeDay py pm (DaysInMonth py pm)" by (simp add: ms_def)
  have pmr: "0 \<le> pm" "pm \<le> 11" using MonthFromTime_range[of lt] by (auto simp: pm_def)
  have dim: "1 \<le> DaysInMonth py pm" "DaysInMonth py pm \<le> 31"
    using DaysInMonth_range[of py pm] by simp_all
  have f: "YearFromTime (ms - 1) = py \<and> MonthFromTime (ms - 1) = pm
      \<and> DateFromTime (ms - 1) = DaysInMonth py pm"
    using fields_of_day[OF pmr dim(1) _ 4] by simp
  have e: "MakeDay py pm 1 = n - 1 - DaysInMonth py pm + 1"
    using 4 pmr unfolding De by (simp add: MakeDay_month)
  show pms: "prev_month_start tz t = MakeDay py pm 1 * msPerDay"
    by (simp add: prev_month_start_def Let_def py_def pm_def lt_def)
  have pmsn: "prev_month_start tz t = (n - DaysInMonth py pm) * msPerDay" by (simp add: pms e)
  show "month_start tz t - prev_month_start tz t = DaysInMonth py pm * msPerDay"
    by (simp add: pmsn ms_def[symmetric] ms algebra_simps)
  have "n * msPerDay - 31 * msPerDay \<le> (n - DaysInMonth py pm) * msPerDay"
    using dim(2) by (simp add: msPerDay_def)
  then have plo: "ms - 31 * msPerDay \<le> prev_month_start tz t" by (simp add: pmsn ms)
  have "(n - DaysInMonth py pm) * msPerDay \<le> n * msPerDay"
    using dim(1) by (simp add: msPerDay_def)
  then have phi: "prev_month_start tz t \<le> ms" by (simp add: pmsn ms)
  have lo3: "min_time \<le> UTC tz (prev_month_start tz t)"
    using zb(3)[of "prev_month_start tz t"] plo mge l1 lo by (simp add: msPerDay_def)
  have up3: "UTC tz (prev_month_start tz t) \<le> max_time"
    using zb(4)[of "prev_month_start tz t"] phi mle l1 hi by (simp add: msPerDay_def)
  have py2': "plain_year (YearFromTime (ms - 1))" using py2 by (simp add: ms_def)
  have "startOfMonth tz (Valid (UTC tz ms - 1)) = TimeClip (UTC tz (prev_month_start tz t))"
    using new_Date_fields_of[OF py2', of tz 1 0 0 0 0] f
    by (simp add: startOfMonth_def getFullYear_def getMonth_def MakeTime_def loc De pmsn)
  then show "range_start (getCompletedMonthlyRangeFrom tz (Valid t)) = Valid (UTC tz (prev_month_start tz t))"
    using TimeClip_Valid[OF lo3 up3]
    by (simp add: getCompletedMonthlyRangeFrom_def Let_def 1 lme)
qed

text \<open>
  Claim C4, as the specification states it, fails at the earliest instants a Date can
  hold: for the reference instant \<open>-8640000000000000\<close> (20 April of the year -271821, in
  UTC) the first day of its month lies before the range of Date, and the completed range
  has neither start nor end.
\<close>

theorem completed_month_out_of_range:
  "getCompletedMonthlyRangeFrom (fixed_offset 0) (Valid (- 8640000000000000)) =
     \<lparr>range_start = Invalid_Date, range_end = Invalid_Date\<rparr>"
  by code_simp

text \<open>
  Claim C4, amended. Let \<open>ref\<close> be a valid instant \<open>t\<close>, at least 64 days after the
  earliest and 2 days before the latest instant a Date can hold, in a zone whose offsets
  do not exceed 24 hours; let neither \<open>ref\<close> nor the last millisecond before its month lie
  in a local year from 0 to 99; and let the local clock run into the midnight that starts
  the month of \<open>ref\<close> and reach the midnight that starts the month before. Then
  \<open>getCompletedMonthlyRangeFrom\<close> returns the previous calendar month on the local clock:
  the start is day 1 at 00:00:00.000 and the end is the last day at 23:59:59.999 of the
  month before the month of \<open>ref\<close> (December of the previous year when \<open>ref\<close> is in
  January), the last day being 28, 29, 30 or 31 by month and leap year; the end is the
  start of \<open>getCurrentMonthlyRangeContaining\<close> minus 1 millisecond; the local clock advances
  by the days of that month minus 1 millisecond from start to end, and the time that
  elapses is that less the amount by which the offset grows from start to end. Called on
  1 March at 07:00, nine hours east of UTC, it returns 1 February 00:00:00.000 to 29
  February 23:59:59.999 in 2024 and to 28 February 23:59:59.999 in 2025; called on 1 April
  2025 at 07:00 in New York it returns 1 March 00:00:00.000 to 31 March 23:59:59.999.
\<close>

theorem completed_month:
  fixes tz :: zone
  assumes "min_time + 64 * msPerDay \<le> t" and "t \<le> max_time - 2 * msPerDay"
    and "\<forall>x b. \<bar>tz x b\<bar> \<le> msPerDay"
    and "plain_year (YearFromTime (LocalTime tz t))"
    and "plain_year (YearFromTime (month_start tz t - 1))"
    and "runs_into tz (month_start tz t)"
    and "reached tz (prev_month_start tz t)"
  shows "let y = YearFromTime (LocalTime tz t); m = MonthFromTime (LocalTime tz t);
             py = (if m = 0 then y - 1 else y); pm = (if m = 0 then 11 else m - 1)
         in \<exists>b e. range_start (getCompletedMonthlyRangeFrom tz (Valid t)) = Valid b \<and>
              range_end (getCompletedMonthlyRangeFrom tz (Valid t)) = Valid e \<and>
              range_start (getCurrentMonthlyRangeContaining tz (Valid t)) = Valid (e + 1) \<and>
              getFullYear tz (Valid b) = Some py \<and> getMonth tz (Valid b) = Some pm \<and>
              getDate tz (Valid b) = Some 1 \<and> getHours tz (Valid b) = Some 0 \<and>
              getMinutes tz (Valid b) = Some 0 \<and> getSeconds tz (Valid b) = Some 0 \<and>
              getMilliseconds tz (Valid b) = Some 0 \<and>
              getFullYear tz (Valid e) = Some py \<and> getMonth tz (Valid e) = Some pm \<and>
              getDate tz (Valid e) = Some (DaysInMonth py pm) \<and> getHours tz (Valid e) = Some 23 \<and>
              getMinutes tz (Valid e) = Some 59 \<and> getSeconds tz (Valid e) = Some 59 \<and>
              getMilliseconds tz (Valid e) = Some 999 \<and>
              LocalTime tz e - LocalTime tz b = DaysInMonth py pm * msPerDay - 1 \<and>
              e - b = DaysInMonth py pm * msPerDay - 1 - (tz e True - tz b True)"
proof -
  define lt where "lt = LocalTime tz t"
  define py where "py = (if MonthFromTime lt = 0 then YearFromTime lt - 1 else YearFromTime lt)"
  define pm where "pm = (if MonthFromTime lt = 0 then 11 else MonthFromTime lt - 1)"
  define n where "n = Day lt - DateFromTime lt + 1"
  define ms where "ms = month_start tz t"
  define ps where "ps = prev_month_start tz t"
  have ms: "ms = n * msPerDay" by (simp add: ms_def month_start_def n_def lt_def)
  note r = completed_month_general[OF assms(1-6)]
  have r1: "range_start (getCurrentMonthlyRangeContaining tz (Valid t)) = Valid (UTC tz ms - 1 + 1)"
    and r2: "range_end (getCompletedMonthlyRangeFrom tz (Valid t)) = Valid (UTC tz ms - 1)"
    and r3: "range_start (getCompletedMonthlyRangeFrom tz (Valid t)) = Valid (UTC tz ps)"
    and r4: "Day (ms - 1) = MakeDay py pm (DaysInMonth py pm)"
    and r5: "ps = MakeDay py pm 1 * msPerDay"
    and r6: "ms - ps = DaysInMonth py pm * msPerDay"
    using r by (simp_all add: py_def pm_def lt_def ms_def ps_def)
  have pmr: "0 \<le> pm" "pm \<le> 11" using MonthFromTime_range[of lt] by (auto simp: pm_def)
  have dim: "1 \<le> DaysInMonth py pm" using DaysInMonth_range[of py pm] by simp
  have fe: "YearFromTime (ms - 1) = py \<and> MonthFromTime (ms - 1) = pm
      \<and> DateFromTime (ms - 1) = DaysInMonth py pm"
    using fields_of_day[OF pmr dim _ r4] by simp
  have fb: "YearFromTime ps = py \<and> MonthFromTime ps = pm \<and> DateFromTime ps = 1"
    using fields_of_day[OF pmr _ dim, of ps] by (simp add: r5 Day_midnight)
  have tb: "HourFromTime ps = 0" "MinFromTime ps = 0" "SecFromTime ps = 0" "msFromTime ps = 0"
    by (simp_all add: r5 time_fields_midnight)
  have te: "HourFromTime (ms - 1) = 23" "MinFromTime (ms - 1) = 59" "SecFromTime (ms - 1) = 59"
    "msFromTime (ms - 1) = 999"
    by (simp_all add: ms time_fields_before_midnight)
  have lb: "LocalTime tz (UTC tz ps) = ps" using assms(7) by (simp add: reached_def ps_def)
  have le: "LocalTime tz (UTC tz ms - 1) = ms - 1" using assms(6) by (simp add: runs_into_def ms_def)
  have span: "(ms - 1) - ps = DaysInMonth py pm * msPerDay - 1" using r6 by simp
  have el: "(UTC tz ms - 1) - UTC tz ps =
      DaysInMonth py pm * msPerDay - 1 - (tz (UTC tz ms - 1) True - tz (UTC tz ps) True)"
    using lb le span unfolding LocalTime_def by linarith
  have "\<exists>b e. range_start (getCompletedMonthlyRangeFrom tz (Valid t)) = Valid b \<and>
              range_end (getCompletedMonthlyRangeFrom tz (Valid t)) = Valid e \<and>
              range_start (getCurrentMonthlyRangeContaining tz (Valid t)) = Valid (e + 1) \<and>
              getFullYear tz (Valid b) = Some py \<and> getMonth tz (Valid b) = Some pm \<and>
              getDate tz (Valid b) = Some 1 \<and> getHours tz (Valid b) = Some 0 \<and>
              getMinutes tz (Valid b) = Some 0 \<and> getSeconds tz (Valid b) = Some 0 \<and>
              getMilliseconds tz (Valid b) = Some 0 \<and>
              getFullYear tz (Valid e) = Some py \<and> getMonth tz (Valid e) = Some pm \<and>
              getDate tz (Valid e) = Some (DaysInMonth py pm) \<and> getHours tz (Valid e) = Some 23 \<and>
              getMinutes tz (Valid e) = Some 59 \<and> getSeconds tz (Valid e) = Some 59 \<and>
              getMilliseconds tz (Valid e) = Some 999 \<and>
              LocalTime tz e - LocalTime tz b = DaysInMonth py pm * msPerDay - 1 \<and>
              e - b = DaysInMonth py pm * msPerDay - 1 - (tz e True - tz b True)"
    apply (rule exI[of _ "UTC tz ps"])
    apply (rule exI[of _ "UTC tz ms - 1"])
    using r1 r2 r3 fe fb el span
    by (simp add: getFullYear_def getMonth_def getDate_def getHours_def getMinutes_def
        getSeconds_def getMilliseconds_def lb le tb te)
  then show ?thesis
    unfolding Let_def py_def pm_def lt_def by simp
qed

theorem completed_month_witness:
  "(min_time + 64 * msPerDay \<le> 1709244000000 \<and> 1709244000000 \<le> max_time - 2 * msPerDay \<and>
    (\<forall>x b. \<bar>fixed_offset 32400000 x b\<bar> \<le> msPerDay) \<and>
    plain_year (YearFromTime (LocalTime (fixed_offset 32400000) 1709244000000)) \<and>
    plain_year (YearFromTime (month_start (fixed_offset 32400000) 1709244000000 - 1)) \<and>
    runs_into (fixed_offset 32400000) (month_start (fixed_offset 32400000) 1709244000000) \<and>
    reached (fixed_offset 32400000) (prev_month_start (fixed_offset 32400000) 1709244000000)) \<and>
   (\<exists>b e. range_start (getCompletedMonthlyRangeFrom (fixed_offset 32400000) (Valid 1709244000000)) = Valid b \<and>
      range_end (getCompletedMonthlyRangeFrom (fixed_offset 32400000) (Valid 1709244000000)) = Valid e \<and>
      getFullYear (fixed_offset 32400000) (Valid b) = Some 2024 \<and>
      getMonth (fixed_offset 32400000) (Valid b) = Some 1 \<and>
      getDate (fixed_offset 32400000) (Valid b) = Some 1 \<and>
      getFullYear (fixed_offset 32400000) (Valid e) = Some 2024 \<and>
      getMonth (fixed_offset 32400000) (Valid e) = Some 1 \<and>
      getDate (fixed_offset 32400000) (Valid e) = Some 29) \<and>
   (min_time + 64 * msPerDay \<le> 1740780000000 \<and> 1740780000000 \<le> max_time - 2 * msPerDay \<and>
    plain_year (YearFromTime (LocalTime (fixed_offset 32400000) 1740780000000)) \<and>
    plain_year (YearFromTime (month_start (fixed_offset 32400000) 1740780000000 - 1)) \<and>
    runs_into (fixed_offset 32400000) (month_start (fixed_offset 32400000) 1740780000000) \<and>
    reached (fixed_offset 32400000) (prev_month_start (fixed_offset 32400000) 1740780000000)) \<and>
   (\<exists>b e. range_start (getCompletedMonthlyRangeFrom (fixed_offset 32400000) (Valid 1740780000000)) = Valid b \<and>
      range_end (getCompletedMonthlyRangeFrom (fixed_offset 32400000) (Valid 1740780000000)) = Valid e \<and>
      getFullYear (fixed_offset 32400000) (Valid b) = Some 2025 \<and>
      getMonth (fixed_offset 32400000) (Valid b) = Some 1 \<and>
      getDate (fixed_offset 32400000) (Valid b) = Some 1 \<and>
      getFullYear (fixed_offset 32400000) (Valid e) = Some 2025 \<and>
      getMonth (fixed_offset 32400000) (Valid e) = Some 1 \<and>
      getDate (fixed_offset 32400000) (Valid e) = Some 28) \<and>
   (min_time + 64 * msPerDay \<le> 1743505200000 \<and> 1743505200000 \<le> max_time - 2 * msPerDay \<and>
    (\<forall>x b. \<bar>new_york x b\<bar> \<le> msPerDay) \<and>
    plain_year (YearFromTime (LocalTime new_york 1743505200000)) \<and>
    plain_year (YearFromTime (month_start new_york 1743505200000 - 1)) \<and>
    runs_into new_york (month_start new_york 1743505200000) \<and>
    reached new_york (prev_month_start new_york 1743505200000)) \<and>
   getCompletedMonthlyRangeFrom new_york (Valid 1743505200000) =
     \<lparr>range_start = Valid 1740805200000, range_end = Valid 1743479999999\<rparr> \<and>
   getMonth new_york (Valid 1740805200000) = Some 2 \<and> getDate new_york (Valid 1740805200000) = Some 1 \<and>
   getHours new_york (Valid 1740805200000) = Some 0 \<and>
   getMonth new_york (Valid 1743479999999) = Some 2 \<and> getDate new_york (Valid 1743479999999) = Some 31 \<and>
   getHours new_york (Valid 1743479999999) = Some 23 \<and>
   (1743479999999 :: int) - 1740805200000 =
     31 * msPerDay - 1 - (new_york 1743479999999 True - new_york 1740805200000 True)"
proof -
  let ?j = "fixed_offset 32400000"
  have hj: "\<forall>x b. \<bar>?j x b\<bar> \<le> msPerDay" by (simp add: fixed_offset_def msPerDay_def)
  have a1: "min_time + 64 * msPerDay \<le> 1709244000000" "1709244000000 \<le> max_time - 2 * msPerDay"
    by (simp_all add: min_time_def max_time_def msPerDay_def)
  have a2: "plain_year (YearFromTime (LocalTime ?j 1709244000000))"
    "plain_year (YearFromTime (month_start ?j 1709244000000 - 1))"
    "runs_into ?j (month_start ?j 1709244000000)"
    "reached ?j (prev_month_start ?j 1709244000000)"
    by code_simp+
  have a5: "YearFromTime (LocalTime ?j 1709244000000) = 2024"
    "MonthFromTime (LocalTime ?j 1709244000000) = 2" "DaysInMonth 2024 1 = 29"
    by code_simp+
  have a0: "\<exists>b e.
      range_start (getCompletedMonthlyRangeFrom ?j (Valid 1709244000000)) = Valid b \<and>
      range_end (getCompletedMonthlyRangeFrom ?j (Valid 1709244000000)) = Valid e \<and>
      range_start (getCurrentMonthlyRangeContaining ?j (Valid 1709244000000)) = Valid (e + 1) \<and>
      getFullYear ?j (Valid b) = Some 2024 \<and> getMonth ?j (Valid b) = Some 1 \<and>
      getDate ?j (Valid b) = Some 1 \<and> getHours ?j (Valid b) = Some 0 \<and>
      getMinutes ?j (Valid b) = Some 0 \<and> getSeconds ?j (Valid b) = Some 0 \<and>
      getMilliseconds ?j (Valid b) = Some 0 \<and>
      getFullYear ?j (Valid e) = Some 2024 \<and> getMonth ?j (Valid e) = Some 1 \<and>
      getDate ?j (Valid e) = Some 29 \<and> getHours ?j (Valid e) = Some 23 \<and>
      getMinutes ?j (Valid e) = Some 59 \<and> getSeconds ?j (Valid e) = Some 59 \<and>
      getMilliseconds ?j (Valid e) = Some 999 \<and>
      LocalTime ?j e - LocalTime ?j b = 29 * msPerDay - 1 \<and>
      e - b = 29 * msPerDay - 1 - (?j e True - ?j b True)"
    using completed_month[OF a1 hj a2] unfolding Let_def a5(1,2) by (simp add: a5(3))
  have a: "\<exists>b e. range_start (getCompletedMonthlyRangeFrom ?j (Valid 1709244000000)) = Valid b \<and>
      range_end (getCompletedMonthlyRangeFrom ?j (Valid 1709244000000)) = Valid e \<and>
      getFullYear ?j (Valid b) = Some 2024 \<and> getMonth ?j (Valid b) = Some 1 \<and>
      getDate ?j (Valid b) = Some 1 \<and>
      getFullYear ?j (Valid e) = Some 2024 \<and> getMonth ?j (Valid e) = Some 1 \<and>
      getDate ?j (Valid e) = Some 29"
    using a0 by (elim exE conjE) (intro exI conjI, assumption+)
  have b1: "min_time + 64 * msPerDay \<le> 1740780000000" "1740780000000 \<le> max_time - 2 * msPerDay"
    by (simp_all add: min_time_def max_time_def msPerDay_def)
  have b2: "plain_year (YearFromTime (LocalTime ?j 1740780000000))"
    "plain_year (YearFromTime (month_start ?j 1740780000000 - 1))"
    "runs_into ?j (month_start ?j 1740780000000)"
    "reached ?j (prev_month_start ?j 1740780000000)"
    by code_simp+
  have b5: "YearFromTime (LocalTime ?j 1740780000000) = 2025"
    "MonthFromTime (LocalTime ?j 1740780000000) = 2" "DaysInMonth 2025 1 = 28"
    by code_simp+
  have b0: "\<exists>b e.
      range_start (getCompletedMonthlyRangeFrom ?j (Valid 1740780000000)) = Valid b \<and>
      range_end (getCompletedMonthlyRangeFrom ?j (Valid 1740780000000)) = Valid e \<and>
      range_start (getCurrentMonthlyRangeContaining ?j (Valid 1740780000000)) = Valid (e + 1) \<and>
      getFullYear ?j (Valid b) = Some 2025 \<and> getMonth ?j (Valid b) = Some 1 \<and>
      getDate ?j (Valid b) = Some 1 \<and> getHours ?j (Valid b) = Some 0 \<and>
      getMinutes ?j (Valid b) = Some 0 \<and> getSeconds ?j (Valid b) = Some 0 \<and>
      getMilliseconds ?j (Valid b) = Some 0 \<and>
      getFullYear ?j (Valid e) = Some 2025 \<and> getMonth ?j (Valid e) = Some 1 \<and>
      getDate ?j (Valid e) = Some 28 \<and> getHours ?j (Valid e) = Some 23 \<and>
      getMinutes ?j (Valid e) = Some 59 \<and> getSeconds ?j (Valid e) = Some 59 \<and>
      getMilliseconds ?j (Valid e) = Some 999 \<and>
      LocalTime ?j e - LocalTime ?j b = 28 * msPerDay - 1 \<and>
      e - b = 28 * msPerDay - 1 - (?j e True - ?j b True)"
    using completed_month[OF b1 hj b2] unfolding Let_def b5(1,2) by (simp add: b5(3))
  have b: "\<exists>b e. range_start (getCompletedMonthlyRangeFrom ?j (Valid 1740780000000)) = Valid b \<and>
      range_end (getCompletedMonthlyRangeFrom ?j (Valid 1740780000000)) = Valid e \<and>
      getFullYear ?j (Valid b) = Some 2025 \<and> getMonth ?j (Valid b) = Some 1 \<and>
      getDate ?j (Valid b) = Some 1 \<and>
      getFullYear ?j (Valid e) = Some 2025 \<and> getMonth ?j (Valid e) = Some 1 \<and>
      getDate ?j (Valid e) = Some 28"
    using b0 by (elim exE conjE) (intro exI conjI, assumption+)
  let ?t = "1743505200000 :: int"
  have hn: "\<forall>x b. \<bar>new_york x b\<bar> \<le> msPerDay" by (simp add: new_york_def msPerDay_def)
  have c1: "min_time + 64 * msPerDay \<le> ?t" "?t \<le> max_time - 2 * msPerDay"
    by (simp_all add: min_time_def max_time_def msPerDay_def)
  have c2: "plain_year (YearFromTime (LocalTime new_york ?t))"
    "plain_year (YearFromTime (month_start new_york ?t - 1))"
    "runs_into new_york (month_start new_york ?t)"
    "reached new_york (prev_month_start new_york ?t)"
    by code_simp+
  have c5: "YearFromTime (LocalTime new_york ?t) = 2025"
    "MonthFromTime (LocalTime new_york ?t) = 3" "DaysInMonth 2025 2 = 31"
    by code_simp+
  have v: "getCompletedMonthlyRangeFrom new_york (Valid ?t) =
     \<lparr>range_start = Valid 1740805200000, range_end = Valid 1743479999999\<rparr>"
    by code_simp
  have c0: "\<exists>b e.
      range_start (getCompletedMonthlyRangeFrom new_york (Valid ?t)) = Valid b \<and>
      range_end (getCompletedMonthlyRangeFrom new_york (Valid ?t)) = Valid e \<and>
      range_start (getCurrentMonthlyRangeContaining new_york (Valid ?t)) = Valid (e + 1) \<and>
      getFullYear new_york (Valid b) = Some 2025 \<and> getMonth new_york (Valid b) = Some 2 \<and>
      getDate new_york (Valid b) = Some 1 \<and> getHours new_york (Valid b) = Some 0 \<and>
      getMinutes new_york (Valid b) = Some 0 \<and> getSeconds new_york (Valid b) = Some 0 \<and>
      getMilliseconds new_york (Valid b) = Some 0 \<and>
      getFullYear new_york (Valid e) = Some 2025 \<and> getMonth new_york (Valid e) = Some 2 \<and>
      getDate new_york (Valid e) = Some 31 \<and> getHours new_york (Valid e) = Some 23 \<and>
      getMinutes new_york (Valid e) = Some 59 \<and> getSeconds new_york (Valid e) = Some 59 \<and>
      getMilliseconds new_york (Valid e) = Some 999 \<and>
      LocalTime new_york e - LocalTime new_york b = 31 * msPerDay - 1 \<and>
      e - b = 31 * msPerDay - 1 - (new_york e True - new_york b True)"
    using completed_month[OF c1 hn c2] unfolding Let_def c5(1,2) by (simp add: c5(3))
  then obtain b e where be:
      "range_start (getCompletedMonthlyRangeFrom new_york (Valid ?t)) = Valid b"
      "range_end (getCompletedMonthlyRangeFrom new_york (Valid ?t)) = Valid e"
      "getMonth new_york (Valid b) = Some 2" "getDate new_york (Valid b) = Some 1"
      "getHours new_york (Valid b) = Some 0"
      "getMonth new_york (Valid e) = Some 2" "getDate new_york (Valid e) = Some 31"
      "getHours new_york (Valid e) = Some 23"
      "e - b = 31 * msPerDay - 1 - (new_york e True - new_york b True)"
    by blast
  have bb: "b = 1740805200000" and ee: "e = 1743479999999" using be(1,2) v by simp_all
  have c: "getMonth new_york (Valid 1740805200000) = Some 2 \<and> getDate new_york (Valid 1740805200000) = Some 1 \<and>
   getHours new_york (Valid 1740805200000) = Some 0 \<and>
   getMonth new_york (Valid 1743479999999) = Some 2 \<and> getDate new_york (Valid 1743479999999) = Some 31 \<and>
   getHours new_york (Valid 1743479999999) = Some 23 \<and>
   (1743479999999 :: int) - 1740805200000 =
     31 * msPerDay - 1 - (new_york 1743479999999 True - new_york 1740805200000 True)"
    using be(3-9) unfolding bb ee by simp
  show ?thesis using a1 hj a2 a b1 b2 b hn c1 c2 v c by blast
qed


section \<open>The time adapter\<close>

lemma adapter_state_cfg: "adapter_state c a \<Longrightarrow> cfg a = c"
  by (induction rule: adapter_state.induct)
    (auto simp: createTimeAdapter_def subscribe_def unsubscribe_def dispose_def split: if_splits)

lemma adapter_state_subscribable:
  "adapter_state c a \<Longrightarrow> subscribable a \<longleftrightarrow> mode c \<noteq> Some snapshot \<and> mode c \<noteq> Some off"
  by (induction rule: adapter_state.induct)
    (auto simp: createTimeAdapter_def subscribe_def unsubscribe_def dispose_def
      split: if_splits)

lemma adapter_state_distinct: "adapter_state c a \<Longrightarrow> distinct (listeners a)"
  by (induction rule: adapter_state.induct)
    (auto simp: createTimeAdapter_def subscribe_def unsubscribe_def dispose_def distinct_removeAll
      split: if_splits)

text \<open>
  Claim C6. Let an adapter be created for a configuration whose \<open>freezeTo\<close> is set,
  whatever its mode, and be in any state its methods can bring it to. When \<open>freezeTo\<close> is
  a valid Date, a number that is an instant in the range of Date, or a string that
  \<^verbatim>\<open>Date.parse\<close> reads as such an instant, \<open>now\<close> returns exactly that instant. When
  \<open>freezeTo\<close> is a string that \<^verbatim>\<open>Date.parse\<close> cannot read, an invalid Date or NaN,
  \<open>now\<close> returns the invalid date: it neither reads the wall clock nor throws. In every
  case the result is the same for every reading of the wall clock.
\<close>

theorem frozen_now:
  assumes "adapter_state c a" and "freezeTo c = Defined (Val fz)"
  shows "(fz = FDate (Valid t) \<and> min_time \<le> t \<and> t \<le> max_time \<longrightarrow> now parse a clock = Valid t) \<and>
     (fz = FNumber (Fin (of_int t)) \<and> min_time \<le> t \<and> t \<le> max_time
        \<longrightarrow> now parse a clock = Valid t) \<and>
     (fz = FString str \<and> parse str = Some t \<and> min_time \<le> t \<and> t \<le> max_time
        \<longrightarrow> now parse a clock = Valid t) \<and>
     (fz = FString str \<and> parse str = None \<longrightarrow> now parse a clock = Invalid_Date) \<and>
     (fz = FDate Invalid_Date \<longrightarrow> now parse a clock = Invalid_Date) \<and>
     (fz = FNumber NaN \<longrightarrow> now parse a clock = Invalid_Date) \<and>
     now parse a clock = now parse a clock'"
  using assms(2) adapter_state_cfg[OF assms(1)]
  by (auto simp: now_def resolveNow_def new_Date_value_def getTime_def new_Date_number_def
      new_Date_string_def TimeClip_def min_time_def max_time_def)

theorem frozen_now_witness:
  "adapter_state \<lparr>mode = Some snapshot, intervalMs = Absent, freezeTo = Defined (Val (FNumber (Fin 1761429600000)))\<rparr>
     (createTimeAdapter \<lparr>mode = Some snapshot, intervalMs = Absent,
        freezeTo = Defined (Val (FNumber (Fin 1761429600000)))\<rparr>) \<and>
   now (\<lambda>str. None)
     (createTimeAdapter \<lparr>mode = Some snapshot, intervalMs = Absent,
        freezeTo = Defined (Val (FNumber (Fin 1761429600000)))\<rparr>) 5 = Valid 1761429600000 \<and>
   adapter_state \<lparr>mode = Some interval, intervalMs = Absent, freezeTo = Defined (Val (FString (ascii ''soon'')))\<rparr>
     (createTimeAdapter \<lparr>mode = Some interval, intervalMs = Absent,
        freezeTo = Defined (Val (FString (ascii ''soon'')))\<rparr>) \<and>
   now (\<lambda>str. None)
     (createTimeAdapter \<lparr>mode = Some interval, intervalMs = Absent,
        freezeTo = Defined (Val (FString (ascii ''soon'')))\<rparr>) 5 = Invalid_Date"
proof -
  let ?c = "\<lparr>mode = Some snapshot, intervalMs = Absent, freezeTo = Defined (Val (FNumber (Fin 1761429600000)))\<rparr>"
  let ?d = "\<lparr>mode = Some interval, intervalMs = Absent, freezeTo = Defined (Val (FString (ascii ''soon'')))\<rparr>"
  have c: "adapter_state ?c (createTimeAdapter ?c)" by (rule adapter_state.created)
  have d: "adapter_state ?d (createTimeAdapter ?d)" by (rule adapter_state.created)
  have "now (\<lambda>str. None) (createTimeAdapter ?c) 5 = Valid 1761429600000"
    using frozen_now[OF c, where fz = "FNumber (Fin 1761429600000)" and t = 1761429600000
        and parse = "\<lambda>str. None" and clock = 5]
    by (simp add: min_time_def max_time_def)
  moreover have "now (\<lambda>str. None) (createTimeAdapter ?d) 5 = Invalid_Date"
    using frozen_now[OF d, where fz = "FString (ascii ''soon'')" and str = "ascii ''soon''"
        and parse = "\<lambda>str. None" and clock = 5]
    by simp
  ultimately show ?thesis using c d by blast
qed

text \<open>
  Claim C9. Let \<open>a\<close> and \<open>b\<close> be states of an adapter created in interval mode: for a
  configuration whose mode is interval, or for one without a mode, which
  \<open>createTimeAdapter\<close> takes the same way.
  \<open>subscribe cb\<close> in state \<open>a\<close> succeeds and adds exactly one call to the log, of \<open>cb\<close>
  with the adapter's current instant: the call is made by \<open>subscribe\<close> itself, no firing
  of the timer is involved. It leaves the timer as it is and \<open>cb\<close> among the listeners.
  The function it returned, called in state \<open>b\<close>, removes \<open>cb\<close> and nothing else from the
  listeners and leaves the timer as it is; a later firing of the running timer calls every
  remaining listener, once each, with the adapter's current instant.
\<close>

theorem subscribe_interval:
  assumes "mode c = Some interval \<or> mode c = None"
    and "adapter_state c a" and "adapter_state c b"
  shows "(\<exists>a'. subscribe parse cb clock (a, calls) = Inr (a', calls @ [(cb, now parse a clock)]) \<and>
            adapter_state c a' \<and> cb \<in> set (listeners a') \<and> timer a' = timer a) \<and>
     listeners (unsubscribe cb b) = removeAll cb (listeners b) \<and>
     timer (unsubscribe cb b) = timer b \<and>
     distinct (listeners b) \<and>
     (\<forall>ms. timer b = Some ms \<longrightarrow>
        tick parse tclock (unsubscribe cb b, tcalls) =
          (unsubscribe cb b,
           tcalls @ map (\<lambda>fn. (fn, now parse b tclock)) (removeAll cb (listeners b))))"
proof -
  have sub: "subscribable a" using adapter_state_subscribable[OF assms(2)] assms(1) by auto
  define a' where "a' = a\<lparr>listeners := (if cb \<in> set (listeners a) then listeners a
                                     else listeners a @ [cb])\<rparr>"
  have s: "subscribe parse cb clock (a, calls) = Inr (a', calls @ [(cb, now parse a clock)])"
    using sub by (simp add: subscribe_def a'_def)
  have st: "adapter_state c a'" using adapter_state.subscribed[OF assms(2) s] .
  have 1: "\<exists>a'. subscribe parse cb clock (a, calls) = Inr (a', calls @ [(cb, now parse a clock)]) \<and>
            adapter_state c a' \<and> cb \<in> set (listeners a') \<and> timer a' = timer a"
    using s st by (auto simp: a'_def)
  have "now parse (unsubscribe cb b) tclock = now parse b tclock"
    by (simp add: now_def unsubscribe_def)
  then have 2: "\<forall>ms. timer b = Some ms \<longrightarrow>
        tick parse tclock (unsubscribe cb b, tcalls) =
          (unsubscribe cb b,
           tcalls @ map (\<lambda>fn. (fn, now parse b tclock)) (removeAll cb (listeners b)))"
    by (simp add: tick_def unsubscribe_def)
  show ?thesis
    using 1 2 adapter_state_distinct[OF assms(3)] by (simp add: unsubscribe_def)
qed

theorem subscribe_interval_witness:
  "(mode \<lparr>mode = Some interval, intervalMs = Absent, freezeTo = Absent\<rparr> = Some interval \<or>
    mode \<lparr>mode = Some interval, intervalMs = Absent, freezeTo = Absent\<rparr> = None) \<and>
   adapter_state \<lparr>mode = Some interval, intervalMs = Absent, freezeTo = Absent\<rparr>
     (createTimeAdapter \<lparr>mode = Some interval, intervalMs = Absent, freezeTo = Absent\<rparr>) \<and>
   adapter_state \<lparr>mode = Some interval, intervalMs = Absent, freezeTo = Absent\<rparr>
     \<lparr>cfg = \<lparr>mode = Some interval, intervalMs = Absent, freezeTo = Absent\<rparr>, subscribable = True,
      listeners = [1, 2], timer = Some (Fin 60000)\<rparr> \<and>
   subscribe (\<lambda>str. None) 1 1000
       (createTimeAdapter \<lparr>mode = Some interval, intervalMs = Absent, freezeTo = Absent\<rparr>, []) =
     Inr (\<lparr>cfg = \<lparr>mode = Some interval, intervalMs = Absent, freezeTo = Absent\<rparr>, subscribable = True,
           listeners = [1], timer = Some (Fin 60000)\<rparr>, [(1, Valid 1000)]) \<and>
   tick (\<lambda>str. None) 61000
       (unsubscribe 1 \<lparr>cfg = \<lparr>mode = Some interval, intervalMs = Absent, freezeTo = Absent\<rparr>,
                       subscribable = True, listeners = [1, 2], timer = Some (Fin 60000)\<rparr>, []) =
     (\<lparr>cfg = \<lparr>mode = Some interval, intervalMs = Absent, freezeTo = Absent\<rparr>, subscribable = True,
       listeners = [2], timer = Some (Fin 60000)\<rparr>, [(2, Valid 61000)])"
proof -
  let ?c = "\<lparr>mode = Some interval, intervalMs = Absent, freezeTo = Absent\<rparr>"
  let ?a1 = "\<lparr>cfg = ?c, subscribable = True, listeners = [1], timer = Some (Fin 60000)\<rparr>"
  let ?b = "\<lparr>cfg = ?c, subscribable = True, listeners = [1, 2], timer = Some (Fin 60000)\<rparr>"
  have m: "mode ?c = Some interval \<or> mode ?c = None" by simp
  have a0: "adapter_state ?c (createTimeAdapter ?c)" by (rule adapter_state.created)
  have s1: "subscribe (\<lambda>str. None) 1 1000 (createTimeAdapter ?c, []) = Inr (?a1, [(1, Valid 1000)])"
    by (simp add: subscribe_def createTimeAdapter_def now_def resolveNow_def)
  have a1: "adapter_state ?c ?a1" by (rule adapter_state.subscribed[OF a0 s1])
  have s2: "subscribe (\<lambda>str. None) 2 1000 (?a1, []) = Inr (?b, [(2, Valid 1000)])"
    by (simp add: subscribe_def now_def resolveNow_def)
  have b: "adapter_state ?c ?b" by (rule adapter_state.subscribed[OF a1 s2])
  note t = subscribe_interval[OF m a0 b, where parse = "\<lambda>str. None" and cb = 1 and clock = 1000
      and calls = "[]" and tclock = 61000 and tcalls = "[]"]
  have "tick (\<lambda>str. None) 61000 (unsubscribe 1 ?b, []) =
     (\<lparr>cfg = ?c, subscribable = True, listeners = [2], timer = Some (Fin 60000)\<rparr>, [(2, Valid 61000)])"
    using t by (simp add: unsubscribe_def now_def resolveNow_def)
  then show ?thesis using m a0 b s1 by blast
qed


section \<open>The configuration registry and the facade\<close>

subsection \<open>Rebuilding the adapters\<close>

lemma dispose_feature_simps:
  "config (dispose_feature f st) = config st"
  "timeMap (dispose_feature f st) = timeMap st"
  "length (heap (dispose_feature f st)) = length (heap st)"
  by (simp_all add: dispose_feature_def split: option.splits)

lemma dispose_feature_disposers:
  "disposers (dispose_feature f st) g = (if g = f then None else disposers st g)"
  by (auto simp: dispose_feature_def split: option.splits)



lemma dispose_all_simps:
  "config (fold dispose_feature FEATURES st) = config st"
  "timeMap (fold dispose_feature FEATURES st) = timeMap st"
  "length (heap (fold dispose_feature FEATURES st)) = length (heap st)"
  by (simp_all add: FEATURES_def dispose_feature_simps)

lemma dispose_all_disposers: "disposers (fold dispose_feature FEATURES st) g = None"
  by (cases g) (simp_all add: FEATURES_def dispose_feature_disposers)


lemma rebuild_feature_config: "config (rebuild_feature f st) = config st"
  by (simp add: rebuild_feature_def Let_def)


lemma rebuild_feature_timeMap_other:
  "g \<noteq> f \<Longrightarrow> timeMap (rebuild_feature f st) g = timeMap st g"
  by (simp add: rebuild_feature_def Let_def)


lemma rebuild_feature_self:
  "timeMap (rebuild_feature f st) f =
     (if mode (resolveTimeConfig (config st) f) = Some off then None else Some (length (heap st)))"
  "mode (resolveTimeConfig (config st) f) \<noteq> Some off \<Longrightarrow>
     heap (rebuild_feature f st) = heap st @ [createTimeAdapter (resolveTimeConfig (config st) f)]"
  "disposers (rebuild_feature f st) f =
     (if mode (resolveTimeConfig (config st) f) \<noteq> Some off \<and>
         subscribable (createTimeAdapter (resolveTimeConfig (config st) f))
      then Some (length (heap st)) else disposers st f)"
  by (simp_all add: rebuild_feature_def Let_def)


lemma rebuild_all_config: "config (fold rebuild_feature FEATURES st) = config st"
  by (simp add: FEATURES_def rebuild_feature_config)

lemma rebuildTimeAdapters_config: "config (rebuildTimeAdapters st) = config st"
  by (simp add: rebuildTimeAdapters_def rebuild_all_config dispose_all_simps)


lemma rebuild_all_off:
  "mode (resolveTimeConfig (config st) f) = Some off \<Longrightarrow> timeMap (fold rebuild_feature FEATURES st) f = None"
  by (cases f)
    (simp_all add: FEATURES_def rebuild_feature_config rebuild_feature_self
      rebuild_feature_timeMap_other)


lemma rebuilt_off:
  "mode (resolveTimeConfig (config st) f) = Some off \<Longrightarrow> timeMap (rebuildTimeAdapters st) f = None"
  using rebuild_all_off[of "fold dispose_feature FEATURES st" f]
  by (simp add: rebuildTimeAdapters_def dispose_all_simps)





lemma MashOS_state_rebuilt: "MashOS_state st \<Longrightarrow> \<exists>st0. st = rebuildTimeAdapters st0"
  by (induction rule: MashOS_state.induct) (auto simp: MashOS_init_def configure_def)


lemma MashOS_state_off:
  assumes "MashOS_state st" and "mode (resolveTimeConfig (config st) f) = Some off"
  shows "timeMap st f = None"
proof -
  obtain st0 where s: "st = rebuildTimeAdapters st0" using MashOS_state_rebuilt[OF assms(1)] by blast
  have "config st = config st0" by (simp add: s rebuildTimeAdapters_config)
  then show ?thesis using assms(2) rebuilt_off[of st0 f] by (simp add: s)
qed


subsection \<open>Features whose mode is off\<close>

text \<open>
  Claim C2, as the specification states it, fails for the features input and flower: with
  mode off their time-dependent outputs are left out, not computed from the wall clock.
  After \<open>configure\<close> sets the default mode to off, \<open>input.buildEntry\<close> returns an
  entry without \<open>created_at\<close>, which is not the entry built from a wall-clock read.
\<close>

theorem off_feature_omits_time:
  "mode (resolveTimeConfig (config
      (configure (Some \<lparr>next_default = Some \<lparr>mode = Some off, intervalMs = Absent, freezeTo = Absent\<rparr>,
                         next_perFeature = None\<rparr>) MashOS_init)) Input) = Some off \<and>
   input_buildEntry (\<lambda>str. None)
      (configure (Some \<lparr>next_default = Some \<lparr>mode = Some off, intervalMs = Absent, freezeTo = Absent\<rparr>,
                         next_perFeature = None\<rparr>) MashOS_init) 0
      \<lparr>emotions = [joy_label], memo = None\<rparr>
     \<noteq> buildEntry \<lparr>emotions = [joy_label], memo = None\<rparr> (Some (Valid 0))"
  by code_simp


text \<open>
  Claim C2, amended. In every state of the module, a feature whose effective mode is off
  holds no adapter, and every facade operation of the feature succeeds. For myweb each
  operation uses a direct read of the wall clock in place of the adapter's \<open>now\<close>. For
  input and flower the time-dependent outputs are left out: \<open>buildEntry\<close> returns the
  entry without \<open>created_at\<close>, \<open>annotate\<close> returns the data without time band and
  \<open>annotated_at\<close>, and \<open>analyze\<close> returns a flower with the weather cloudy and without
  \<open>annotated_at\<close>.
\<close>

theorem off_feature_has_no_adapter:
  assumes "MashOS_state st" and "mode (resolveTimeConfig (config st) f) = Some off"
  shows "timeMap st f = None \<and>
     (f = Input \<longrightarrow>
        input_buildEntry parse st clock payload =
          Inr \<lparr>entry_emotions = emotions payload, entry_memo = memo payload, created_at = None\<rparr>) \<and>
     (f = Myweb \<longrightarrow>
        myweb_isWeeklyReportNow tz parse st clock = isWeeklyReportTrigger tz (Valid clock) \<and>
        myweb_isMonthlyReportNow tz parse st clock = isMonthlyReportTrigger tz (Valid clock) \<and>
        myweb_completedWeeklyRangeForNow tz parse st clock = getCompletedWeeklyRangeFrom tz (Valid clock) \<and>
        myweb_completedMonthlyRangeForNow tz parse st clock = getCompletedMonthlyRangeFrom tz (Valid clock) \<and>
        myweb_currentWeeklyRange tz parse st clock = getCurrentWeeklyRangeContaining tz (Valid clock) \<and>
        myweb_currentMonthlyRange tz parse st clock = getCurrentMonthlyRangeContaining tz (Valid clock)) \<and>
     (f = Flower \<longrightarrow>
        flower_annotate tz parse st clock x =
          Inr \<lparr>data = x, timeBand = None, annotation_annotated_at = None\<rparr> \<and>
        (\<exists>fs. flower_analyze tz parse st clock es note = Inr fs \<and> climate fs = Some \<lparr>weather = cloudy\<rparr> \<and>
              annotated_at fs = None))"
proof -
  have t: "timeMap st f = None" using MashOS_state_off[OF assms] .
  then have n: "time_now parse st f clock = None" by (simp add: time_now_def adapter_of_def)
  have an: "\<exists>fs. analyze tz es note None = Inr fs \<and> climate fs = Some \<lparr>weather = cloudy\<rparr> \<and> annotated_at fs = None"
    by (simp add: analyze_def flag_nonzero Let_def)
  show ?thesis
    using t n an
    by (auto simp: input_buildEntry_def buildEntry_def myweb_now_def myweb_isWeeklyReportNow_def
        myweb_isMonthlyReportNow_def myweb_completedWeeklyRangeForNow_def
        myweb_completedMonthlyRangeForNow_def myweb_currentWeeklyRange_def
        myweb_currentMonthlyRange_def flower_annotate_def flower_analyze_def annotate_def)
qed

theorem off_feature_has_no_adapter_witness:
  "MashOS_state (configure (Some \<lparr>next_default = Some \<lparr>mode = Some off, intervalMs = Absent, freezeTo = Absent\<rparr>,
                                   next_perFeature = None\<rparr>) MashOS_init) \<and>
   mode (resolveTimeConfig (config
      (configure (Some \<lparr>next_default = Some \<lparr>mode = Some off, intervalMs = Absent, freezeTo = Absent\<rparr>,
                         next_perFeature = None\<rparr>) MashOS_init)) Input) = Some off \<and>
   mode (resolveTimeConfig (config
      (configure (Some \<lparr>next_default = Some \<lparr>mode = Some off, intervalMs = Absent, freezeTo = Absent\<rparr>,
                         next_perFeature = None\<rparr>) MashOS_init)) Myweb) = Some off \<and>
   mode (resolveTimeConfig (config
      (configure (Some \<lparr>next_default = Some \<lparr>mode = Some off, intervalMs = Absent, freezeTo = Absent\<rparr>,
                         next_perFeature = None\<rparr>) MashOS_init)) Flower) = Some off \<and>
   input_buildEntry (\<lambda>str. None)
      (configure (Some \<lparr>next_default = Some \<lparr>mode = Some off, intervalMs = Absent, freezeTo = Absent\<rparr>,
                         next_perFeature = None\<rparr>) MashOS_init) 0
      \<lparr>emotions = [joy_label], memo = None\<rparr> =
     Inr \<lparr>entry_emotions = [joy_label], entry_memo = None, created_at = None\<rparr> \<and>
   myweb_isWeeklyReportNow (fixed_offset 32400000) (\<lambda>str. None)
      (configure (Some \<lparr>next_default = Some \<lparr>mode = Some off, intervalMs = Absent, freezeTo = Absent\<rparr>,
                         next_perFeature = None\<rparr>) MashOS_init) 1761429600000 \<and>
   flower_annotate (fixed_offset 0) (\<lambda>str. None)
      (configure (Some \<lparr>next_default = Some \<lparr>mode = Some off, intervalMs = Absent, freezeTo = Absent\<rparr>,
                         next_perFeature = None\<rparr>) MashOS_init) 0 True =
     Inr \<lparr>data = True, timeBand = None, annotation_annotated_at = None\<rparr>"
proof -
  let ?p = "Some \<lparr>next_default = Some \<lparr>mode = Some off, intervalMs = Absent, freezeTo = Absent\<rparr>,
                  next_perFeature = None\<rparr>"
  let ?st = "configure ?p MashOS_init"
  have r: "MashOS_state ?st" by (intro MashOS_state.intros)
  have m: "mode (resolveTimeConfig (config ?st) Input) = Some off"
    "mode (resolveTimeConfig (config ?st) Myweb) = Some off"
    "mode (resolveTimeConfig (config ?st) Flower) = Some off"
    by code_simp+
  have a: "input_buildEntry (\<lambda>str. None) ?st 0 \<lparr>emotions = [joy_label], memo = None\<rparr> =
     Inr \<lparr>entry_emotions = [joy_label], entry_memo = None, created_at = None\<rparr>"
    using off_feature_has_no_adapter[OF r m(1), where parse = "\<lambda>str. None" and clock = 0
        and payload = "\<lparr>emotions = [joy_label], memo = None\<rparr>"]
    by simp
  have "myweb_isWeeklyReportNow (fixed_offset 32400000) (\<lambda>str. None) ?st 1761429600000 =
      isWeeklyReportTrigger (fixed_offset 32400000) (Valid 1761429600000)"
    using off_feature_has_no_adapter[OF r m(2), where parse = "\<lambda>str. None"
        and clock = 1761429600000 and tz = "fixed_offset 32400000"]
    by simp
  moreover have "isWeeklyReportTrigger (fixed_offset 32400000) (Valid 1761429600000)" by code_simp
  ultimately have b: "myweb_isWeeklyReportNow (fixed_offset 32400000) (\<lambda>str. None) ?st 1761429600000" by simp
  have c: "flower_annotate (fixed_offset 0) (\<lambda>str. None) ?st 0 True =
     Inr \<lparr>data = True, timeBand = None, annotation_annotated_at = None\<rparr>"
    using off_feature_has_no_adapter[OF r m(3), where parse = "\<lambda>str. None" and clock = 0
        and tz = "fixed_offset 0" and x = True]
    by simp
  show ?thesis using r m a b c by blast
qed


subsection \<open>Reconfiguration\<close>





text \<open>
  The JSON round trip that \<open>mergeConfig\<close> applies to the stored configuration leaves a
  TimeConfig as it is unless it holds a Date, a number that is not finite, or a property
  with the value \<^verbatim>\<open>undefined\<close>. It rewrites a \<open>freezeTo\<close> that is a Date: a later call
  of \<open>configure\<close>, whatever its argument, turns an invalid Date into null, after which
  \<open>now\<close> reads the wall clock.
\<close>

lemma json_TimeConfig_unchanged:
  assumes "intervalMs c = Absent \<or> intervalMs c = Defined Null \<or> (\<exists>x. intervalMs c = Defined (Val (Fin x)))"
    and "freezeTo c = Absent \<or> freezeTo c = Defined Null \<or> (\<exists>str. freezeTo c = Defined (Val (FString str)))
         \<or> (\<exists>x. freezeTo c = Defined (Val (FNumber (Fin x))))"
  shows "json_TimeConfig c = c"
  using assms
  by (auto simp: json_TimeConfig_def json_property_def json_num_def json_freeze_def)

lemma json_round_trip_drops_invalid_freeze:
  "freezeTo (default (config
      (configure (Some \<lparr>next_default = Some \<lparr>mode = Some snapshot, intervalMs = Absent,
                                               freezeTo = Defined (Val (FDate Invalid_Date))\<rparr>,
                         next_perFeature = None\<rparr>) MashOS_init))) =
     Defined (Val (FDate Invalid_Date)) \<and>
   freezeTo (default (config (configure None
      (configure (Some \<lparr>next_default = Some \<lparr>mode = Some snapshot, intervalMs = Absent,
                                               freezeTo = Defined (Val (FDate Invalid_Date))\<rparr>,
                         next_perFeature = None\<rparr>) MashOS_init)))) =
     Defined Null"
  by code_simp

text \<open>
  A per-feature key given with the value \<^verbatim>\<open>undefined\<close> gets an entry all the same:
  the prior entry, or the empty object when there was none. The empty object has no mode;
  \<open>resolveTimeConfig\<close> takes it for the configuration of the feature, and
  \<open>createTimeAdapter\<close> takes its interval branch: the feature myweb, on snapshot before,
  holds an adapter with a timer of 60000 ms afterwards. An optional field given with the
  value \<^verbatim>\<open>undefined\<close> replaces the old value: the interval of 1000 ms set by an earlier
  call is lost.
\<close>

lemma configure_undefined_entry:
  "resolveTimeConfig (config MashOS_init) Myweb =
     \<lparr>mode = Some snapshot, intervalMs = Absent, freezeTo = Absent\<rparr> \<and>
   perFeature (config
      (configure (Some \<lparr>next_default = None,
                         next_perFeature = Some (\<lambda>k. if k = Myweb then Undefined else Absent)\<rparr>)
         MashOS_init)) Myweb = Some empty_TimeConfig \<and>
   adapter_of
      (configure (Some \<lparr>next_default = None,
                         next_perFeature = Some (\<lambda>k. if k = Myweb then Undefined else Absent)\<rparr>)
         MashOS_init) Myweb =
     Some \<lparr>cfg = empty_TimeConfig, subscribable = True, listeners = [], timer = Some (Fin 60000)\<rparr>"
  by code_simp

lemma configure_undefined_field:
  "intervalMs (default (config
      (configure (Some \<lparr>next_default = Some \<lparr>mode = Some interval, intervalMs = Undefined,
                                               freezeTo = Absent\<rparr>,
                         next_perFeature = None\<rparr>)
        (configure (Some \<lparr>next_default = Some \<lparr>mode = Some interval,
                                                 intervalMs = Defined (Val (Fin 1000)),
                                                 freezeTo = Absent\<rparr>,
                           next_perFeature = None\<rparr>) MashOS_init)))) = Undefined"
  by code_simp




end
